theory Spec2Isabelle
  imports Main "HOL-Library.Word" "HOL-Library.Signed_Division"
begin

section \<open>Results of fallible code\<close>

text \<open>
  Every stage of the program signals failure by throwing \<^verbatim>\<open>std::runtime_error\<close>
  (or, inside \<^verbatim>\<open>std::stoi\<close>, another \<^verbatim>\<open>std::exception\<close>). A thrown exception is the
  value \<open>Throw msg\<close>. Code whose behaviour C++ leaves undefined (reading a
  \<^verbatim>\<open>std::vector\<close> out of range, dereferencing a null pointer, integer division by zero)
  is the value \<open>Crash\<close>. \<open>Diverge\<close> is a call that never returns because the lexer
  recurses forever, and \<open>OutOfFuel\<close> is the recursion bound of this model running out.
\<close>

datatype 'a result = Ok 'a | Throw string | Crash | Diverge | OutOfFuel

fun andThen :: "'a result \<Rightarrow> ('a \<Rightarrow> 'b result) \<Rightarrow> 'b result" where
  "andThen (Ok a) f = f a"
| "andThen (Throw e) f = Throw e"
| "andThen Crash f = Crash"
| "andThen Diverge f = Diverge"
| "andThen OutOfFuel f = OutOfFuel"

section \<open>Decimal output of integers\<close>

text \<open>\<^verbatim>\<open>std::to_string(int)\<close> and \<^verbatim>\<open>operator<<(int)\<close>: the decimal digits, with a minus sign.\<close>

fun digit_char :: "nat \<Rightarrow> char" where
  "digit_char n = char_of (48 + n)"

function to_string_nat :: "nat \<Rightarrow> string" where
  "to_string_nat n = (if n < 10 then [digit_char n] else to_string_nat (n div 10) @ [digit_char (n mod 10)])"
  by pat_completeness auto
termination
  by (relation "measure id") auto

declare to_string_nat.simps [simp del]

definition to_string :: "int \<Rightarrow> string" where
  "to_string i = (if i < 0 then CHR ''-'' # to_string_nat (nat (- i)) else to_string_nat (nat i))"

section \<open>Lexer (lexer.h)\<close>

text \<open>
  The constructors of \<^verbatim>\<open>enum class token_type\<close> carry the prefix \<open>T_\<close>: in C++ they are
  qualified by the enum's name, and several of them (Identifier, Let, Plus, Less, ...) would
  otherwise clash with node types of the parser or with constants of HOL.
\<close>

datatype token_type =
    T_Identifier | T_Number | T_String
  | T_Let | T_Const | T_Class | T_Function
  | T_Int | T_Double | T_Bool | T_Return
  | T_Plus | T_Minus | T_Star | T_Slash
  | T_Equal | T_EqualEqual | T_PlusPlus
  | T_LParen | T_RParen | T_LBrace | T_RBrace
  | T_Semicolon | T_Colon | T_Comma | T_Print | T_MinusMinus
  | T_For | T_While | T_In | T_Less | T_Greater | T_BangEqual | T_LessEqual | T_GreaterEqual
  | T_LBracket | T_RBracket
  | T_End | T_Unexpected

fun tokenTypeToString :: "token_type \<Rightarrow> string" where
  "tokenTypeToString T_Identifier = ''Identifier''"
| "tokenTypeToString T_Number = ''Number''"
| "tokenTypeToString T_String = ''String''"
| "tokenTypeToString T_Let = ''Let''"
| "tokenTypeToString T_Const = ''Const''"
| "tokenTypeToString T_Class = ''Class''"
| "tokenTypeToString T_Function = ''Function''"
| "tokenTypeToString T_Int = ''Int''"
| "tokenTypeToString T_Print = ''print''"
| "tokenTypeToString T_Double = ''Double''"
| "tokenTypeToString T_Bool = ''Bool''"
| "tokenTypeToString T_Return = ''Return''"
| "tokenTypeToString T_Less = ''Less''"
| "tokenTypeToString T_Greater = ''Greater''"
| "tokenTypeToString T_GreaterEqual = ''GreaterEqual''"
| "tokenTypeToString T_BangEqual = ''BangEqual''"
| "tokenTypeToString T_LessEqual = ''LessEqual''"
| "tokenTypeToString T_LBracket = ''LBracket''"
| "tokenTypeToString T_RBracket = ''RBracket''"
| "tokenTypeToString T_Plus = ''Plus''"
| "tokenTypeToString T_Minus = ''Minus''"
| "tokenTypeToString T_For = ''For''"
| "tokenTypeToString T_In = ''In''"
| "tokenTypeToString T_While = ''While''"
| "tokenTypeToString T_Star = ''Star''"
| "tokenTypeToString T_Slash = ''Slash''"
| "tokenTypeToString T_Equal = ''Equal''"
| "tokenTypeToString T_EqualEqual = ''EqualEqual''"
| "tokenTypeToString T_PlusPlus = ''PlusPlus''"
| "tokenTypeToString T_MinusMinus = ''MinusMinus''"
| "tokenTypeToString T_LParen = ''LParen''"
| "tokenTypeToString T_RParen = ''RParen''"
| "tokenTypeToString T_LBrace = ''LBrace''"
| "tokenTypeToString T_RBrace = ''RBrace''"
| "tokenTypeToString T_Semicolon = ''Semicolon''"
| "tokenTypeToString T_Colon = ''Colon''"
| "tokenTypeToString T_Comma = ''Comma''"
| "tokenTypeToString T_End = ''End''"
| "tokenTypeToString T_Unexpected = ''Unexpected''"

text \<open>
  The state of a \<^verbatim>\<open>Lexer\<close> object. \<^verbatim>\<open>size_t\<close> positions are natural numbers, the
  \<^verbatim>\<open>int\<close> line and column counters are integers.
\<close>

record Lexer =
  source :: string
  current :: nat
  start :: nat
  line :: int
  column :: int
  line_start :: int
  column_start :: int

text \<open>
  \<^verbatim>\<open>struct Token\<close>. Its fields \<open>line\<close> and \<open>column\<close> are declared after the lexer's, so
  the unqualified names are the token's and the lexer's counters are written
  \<open>Lexer.line\<close> and \<open>Lexer.column\<close>.
\<close>

record Token =
  type :: token_type
  lexeme :: string
  line :: int
  column :: int

definition Lexer_keywords :: "(string \<times> token_type) list" where
  "Lexer_keywords =
    [(''let'', T_Let), (''const'', T_Const), (''class'', T_Class), (''function'', T_Function),
     (''int'', T_Int), (''double'', T_Double), (''bool'', T_Bool), (''for'', T_For),
     (''while'', T_While), (''in'', T_In), (''print'', T_Print), (''return'', T_Return)]"

definition Lexer_new :: "string \<Rightarrow> Lexer" where
  "Lexer_new src =
    \<lparr>source = src, current = 0, start = 0, line = 1, column = 1, line_start = 1, column_start = 1\<rparr>"

definition isAtEnd :: "Lexer \<Rightarrow> bool" where
  "isAtEnd L = (current L \<ge> length (source L))"

definition advance :: "Lexer \<Rightarrow> char \<times> Lexer" where
  "advance L =
    (if isAtEnd L then (CHR 0x00, L)
     else let c = source L ! current L; L1 = L\<lparr>current := current L + 1\<rparr>
          in if c = CHR 0x0A
             then (c, L1\<lparr>Lexer.line := Lexer.line L1 + 1, Lexer.column := 1\<rparr>)
             else (c, L1\<lparr>Lexer.column := Lexer.column L1 + 1\<rparr>))"

definition peek :: "Lexer \<Rightarrow> char" where
  "peek L = (if isAtEnd L then CHR 0x00 else source L ! current L)"

definition peekNext :: "Lexer \<Rightarrow> char" where
  "peekNext L = (if current L + 1 \<ge> length (source L) then CHR 0x00 else source L ! (current L + 1))"

definition match :: "char \<Rightarrow> Lexer \<Rightarrow> bool \<times> Lexer" where
  "match expected L =
    (if isAtEnd L then (False, L)
     else if source L ! current L \<noteq> expected then (False, L)
     else (True, snd (advance L)))"

text \<open>
  \<^verbatim>\<open>source.substr(pos, n)\<close>. The lexer only calls it with \<open>pos \<le> length s\<close>
  (\<open>start \<le> current \<le> length source\<close>), where \<^verbatim>\<open>substr\<close> does not throw.
\<close>

definition substr :: "string \<Rightarrow> nat \<Rightarrow> nat \<Rightarrow> string" where
  "substr s pos n = take n (drop pos s)"

definition makeToken :: "token_type \<Rightarrow> Lexer \<Rightarrow> Token" where
  "makeToken ty L =
    \<lparr>type = ty, lexeme = substr (source L) (start L) (current L - start L),
     line = line_start L, column = column_start L\<rparr>"

definition errorToken :: "string \<Rightarrow> Lexer \<Rightarrow> Token" where
  "errorToken message L =
    \<lparr>type = T_Unexpected, lexeme = message, line = line_start L, column = column_start L\<rparr>"

definition isdigit :: "char \<Rightarrow> bool" where
  "isdigit c = (48 \<le> (of_char c :: nat) \<and> (of_char c :: nat) \<le> 57)"

definition isAlpha :: "char \<Rightarrow> bool" where
  "isAlpha c =
    ((97 \<le> (of_char c :: nat) \<and> (of_char c :: nat) \<le> 122)
     \<or> (65 \<le> (of_char c :: nat) \<and> (of_char c :: nat) \<le> 90)
     \<or> c = CHR ''_'')"

definition isAlphaNumeric :: "char \<Rightarrow> bool" where
  "isAlphaNumeric c = (isAlpha c \<or> isdigit c)"

lemma advance_source [simp]: "source (snd (advance L)) = source L"
  by (simp add: advance_def Let_def)

lemma advance_current:
  "current (snd (advance L)) = (if isAtEnd L then current L else current L + 1)"
  by (simp add: advance_def Let_def)

lemma peek_not_nul_not_at_end: "peek L \<noteq> CHR 0x00 \<Longrightarrow> \<not> isAtEnd L"
  by (auto simp: peek_def)

text \<open>The inner loop of \<^verbatim>\<open>skipWhitespace\<close> that runs over a \<^verbatim>\<open>//\<close> comment.\<close>

function skipLineComment :: "Lexer \<Rightarrow> Lexer" where
  "skipLineComment L =
    (if peek L \<noteq> CHR 0x0A \<and> \<not> isAtEnd L then skipLineComment (snd (advance L)) else L)"
  by pat_completeness auto
termination
  by (relation "measure (\<lambda>L. length (source L) - current L)")
     (auto simp: advance_current isAtEnd_def)

declare skipLineComment.simps [simp del]

lemma skipLineComment_source [simp]: "source (skipLineComment L) = source L"
  by (induction L rule: skipLineComment.induct) (subst skipLineComment.simps, simp)

lemma skipLineComment_current: "current L \<le> current (skipLineComment L)"
proof (induction L rule: skipLineComment.induct)
  case (1 L)
  show ?case
  proof (cases "peek L \<noteq> CHR 0x0A \<and> \<not> isAtEnd L")
    case True
    with 1 have "current (snd (advance L)) \<le> current (skipLineComment (snd (advance L)))"
      by simp
    with True show ?thesis
      by (subst skipLineComment.simps) (simp add: advance_current)
  next
    case False
    then show ?thesis
      by (subst skipLineComment.simps) auto
  qed
qed

lemma skipLineComment_progress:
  assumes "peek L = CHR ''/''"
  shows "current L < current (skipLineComment L)"
proof -
  from assms have ne: "\<not> isAtEnd L"
    by (intro peek_not_nul_not_at_end) simp
  with assms have "skipLineComment L = skipLineComment (snd (advance L))"
    by (subst skipLineComment.simps) simp
  moreover have "current (snd (advance L)) \<le> current (skipLineComment (snd (advance L)))"
    by (rule skipLineComment_current)
  ultimately show ?thesis
    using ne by (simp add: advance_current)
qed

lemma skipLineComment_bound: "current L \<le> length (source L) \<Longrightarrow> current (skipLineComment L) \<le> length (source L)"
proof (induction L rule: skipLineComment.induct)
  case (1 L)
  show ?case
  proof (cases "peek L \<noteq> CHR 0x0A \<and> \<not> isAtEnd L")
    case True
    then have "current (snd (advance L)) \<le> length (source (snd (advance L)))"
      by (simp add: advance_current isAtEnd_def)
    with 1 True have "current (skipLineComment (snd (advance L))) \<le> length (source L)"
      by simp
    with True show ?thesis
      by (subst skipLineComment.simps) simp
  next
    case False
    with 1 show ?thesis
      by (subst skipLineComment.simps) auto
  qed
qed

function skipWhitespace :: "Lexer \<Rightarrow> Lexer" where
  "skipWhitespace L =
    (let c = peek L in
     if c = CHR '' '' \<or> c = CHR 0x0D \<or> c = CHR 0x09 then skipWhitespace (snd (advance L))
     else if c = CHR 0x0A then skipWhitespace (snd (advance L))
     else if c = CHR ''/'' then
       (if peekNext L = CHR ''/'' then skipWhitespace (skipLineComment L) else L)
     else L)"
  by pat_completeness auto
termination
proof (relation "measure (\<lambda>L. length (source L) - current L)", goal_cases)
  case 1
  show ?case by simp
next
  case (2 L c)
  then have "\<not> isAtEnd L"
    by (intro peek_not_nul_not_at_end) auto
  then show ?case
    by (simp add: advance_current isAtEnd_def)
next
  case (3 L c)
  then have "\<not> isAtEnd L"
    by (intro peek_not_nul_not_at_end) auto
  then show ?case
    by (simp add: advance_current isAtEnd_def)
next
  case (4 L c)
  then have p: "peek L = CHR ''/''" by simp
  then have "\<not> isAtEnd L"
    by (intro peek_not_nul_not_at_end) simp
  moreover have "current L < current (skipLineComment L)"
    using p by (rule skipLineComment_progress)
  moreover have "current (skipLineComment L) \<le> length (source L)"
    using \<open>\<not> isAtEnd L\<close> by (intro skipLineComment_bound) (simp add: isAtEnd_def)
  ultimately show ?case
    by (simp add: isAtEnd_def)
qed

declare skipWhitespace.simps [simp del]

text \<open>The loops \<^verbatim>\<open>while (isAlphaNumeric(peek())) advance();\<close> and \<^verbatim>\<open>while (isdigit(peek())) advance();\<close>.\<close>

function identifier_loop :: "Lexer \<Rightarrow> Lexer" where
  "identifier_loop L = (if isAlphaNumeric (peek L) then identifier_loop (snd (advance L)) else L)"
  by pat_completeness auto
termination
proof (relation "measure (\<lambda>L. length (source L) - current L)", goal_cases)
  case 1
  show ?case by simp
next
  case (2 L)
  then have "\<not> isAtEnd L"
    by (intro peek_not_nul_not_at_end) (auto simp: isAlphaNumeric_def isAlpha_def isdigit_def)
  then show ?case
    by (simp add: advance_current isAtEnd_def)
qed

declare identifier_loop.simps [simp del]

function number_loop :: "Lexer \<Rightarrow> Lexer" where
  "number_loop L = (if isdigit (peek L) then number_loop (snd (advance L)) else L)"
  by pat_completeness auto
termination
proof (relation "measure (\<lambda>L. length (source L) - current L)", goal_cases)
  case 1
  show ?case by simp
next
  case (2 L)
  then have "\<not> isAtEnd L"
    by (intro peek_not_nul_not_at_end) (auto simp: isdigit_def)
  then show ?case
    by (simp add: advance_current isAtEnd_def)
qed

declare number_loop.simps [simp del]

definition Lexer_identifier :: "Lexer \<Rightarrow> Token \<times> Lexer" where
  "Lexer_identifier L0 =
    (let L = identifier_loop L0;
         text = substr (source L) (start L) (current L - start L)
     in case map_of Lexer_keywords text of
          Some ty \<Rightarrow> (\<lparr>type = ty, lexeme = text, line = line_start L, column = column_start L\<rparr>, L)
        | None \<Rightarrow> (makeToken T_Identifier L, L))"

definition number :: "Lexer \<Rightarrow> Token \<times> Lexer" where
  "number L0 =
    (let L1 = number_loop L0;
         L2 = (if peek L1 = CHR ''.'' \<and> isdigit (peekNext L1)
               then number_loop (snd (advance L1)) else L1)
     in (makeToken T_Number L2, L2))"

text \<open>The loop of \<^verbatim>\<open>stringLiteral\<close>: a backslash makes the next character be consumed too.\<close>

function stringLiteral_loop :: "Lexer \<Rightarrow> Lexer" where
  "stringLiteral_loop L =
    (if peek L \<noteq> CHR 0x22 \<and> \<not> isAtEnd L
     then stringLiteral_loop (snd (advance (if peek L = CHR 0x5C then snd (advance L) else L)))
     else L)"
  by pat_completeness auto
termination
  by (relation "measure (\<lambda>L. length (source L) - current L)")
     (auto simp: advance_current isAtEnd_def)

declare stringLiteral_loop.simps [simp del]

definition stringLiteral :: "Lexer \<Rightarrow> Token \<times> Lexer" where
  "stringLiteral L0 =
    (let L = stringLiteral_loop L0
     in if isAtEnd L then (errorToken ''Unterminated string'' L, L)
        else let L1 = snd (advance L) in (makeToken T_String L1, L1))"

text \<open>
  The \<^verbatim>\<open>switch (c)\<close> of \<^verbatim>\<open>nextToken\<close> compares the \<^verbatim>\<open>char\<close>, promoted to \<^verbatim>\<open>int\<close>, with
  its case labels. \<open>char_value\<close> is that promotion (a signed 8-bit \<^verbatim>\<open>char\<close>);
  \<open>multichar\<close> is the \<^verbatim>\<open>int\<close> value of a two-character literal such as \<^verbatim>\<open>'<='\<close>, the
  first character in the higher byte.
\<close>

definition char_value :: "char \<Rightarrow> int" where
  "char_value c = (if (of_char c :: int) < 128 then of_char c else of_char c - 256)"

definition multichar :: "char \<Rightarrow> char \<Rightarrow> int" where
  "multichar a b = of_char a * 256 + of_char b"

text \<open>
  \<^verbatim>\<open>nextToken\<close>, with the body of \<^verbatim>\<open>handleSemicolon\<close> in the case of \<^verbatim>\<open>';'\<close>:
  \<^verbatim>\<open>handleSemicolon\<close> calls \<^verbatim>\<open>nextToken\<close> again, and nothing bounds that recursion, so the
  function is partial and the value \<open>None\<close> is a call that never returns.
\<close>

partial_function (option) nextToken :: "Lexer \<Rightarrow> (Token \<times> Lexer) option" where
  "nextToken L0 =
    (let L1 = skipWhitespace L0;
         L = L1\<lparr>start := current L1, line_start := Lexer.line L1, column_start := Lexer.column L1\<rparr>
     in if isAtEnd L then Some (makeToken T_End L, L)
        else case advance L of (c, L2) \<Rightarrow>
          if isAlpha c then Some (Lexer_identifier L2)
          else if isdigit c then Some (number L2)
          else if c = CHR 0x22 then Some (stringLiteral L2)
          else if char_value c = char_value CHR ''('' then Some (makeToken T_LParen L2, L2)
          else if char_value c = char_value CHR '')'' then Some (makeToken T_RParen L2, L2)
          else if char_value c = char_value CHR ''{'' then Some (makeToken T_LBrace L2, L2)
          else if char_value c = char_value CHR ''['' then Some (makeToken T_LBracket L2, L2)
          else if char_value c = char_value CHR ''<'' then Some (makeToken T_Less L2, L2)
          else if char_value c = multichar CHR ''<'' CHR ''='' then Some (makeToken T_LessEqual L2, L2)
          else if char_value c = char_value CHR ''>'' then Some (makeToken T_Greater L2, L2)
          else if char_value c = multichar CHR ''>'' CHR ''='' then Some (makeToken T_GreaterEqual L2, L2)
          else if char_value c = char_value CHR '']'' then Some (makeToken T_RBracket L2, L2)
          else if char_value c = char_value CHR ''}'' then Some (makeToken T_RBrace L2, L2)
          else if char_value c = char_value CHR '';'' then
            (if current L2 > 1 \<and> source L2 ! (current L2 - 2) = CHR 0x0A
             then nextToken (L2\<lparr>current := current L2 - 1\<rparr>)
             else Some (makeToken T_Semicolon L2, L2))
          else if char_value c = char_value CHR '':'' then Some (makeToken T_Colon L2, L2)
          else if char_value c = char_value CHR '','' then Some (makeToken T_Comma L2, L2)
          else if char_value c = char_value CHR ''='' then
            (case match CHR ''='' L2 of
               (True, L3) \<Rightarrow> Some (makeToken T_EqualEqual L3, L3)
             | (False, L3) \<Rightarrow> Some (makeToken T_Equal L3, L3))
          else if char_value c = char_value CHR ''+'' then
            (case match CHR ''+'' L2 of
               (True, L3) \<Rightarrow> Some (makeToken T_PlusPlus L3, L3)
             | (False, L3) \<Rightarrow> Some (makeToken T_Plus L3, L3))
          else if char_value c = char_value CHR ''-'' then
            (case match CHR ''-'' L2 of
               (True, L3) \<Rightarrow> Some (makeToken T_MinusMinus L3, L3)
             | (False, L3) \<Rightarrow> Some (makeToken T_Minus L3, L3))
          else if char_value c = char_value CHR ''*'' then Some (makeToken T_Star L2, L2)
          else if char_value c = char_value CHR ''/'' then Some (makeToken T_Slash L2, L2)
          else Some (errorToken ''Unexpected character'' L2, L2))"

text \<open>
  One pass through the body of \<^verbatim>\<open>nextToken\<close>, with \<open>None\<close> where \<^verbatim>\<open>handleSemicolon\<close>
  calls \<^verbatim>\<open>nextToken\<close> again. \<open>nextToken_scanToken\<close> below shows that this is what
  \<^verbatim>\<open>nextToken\<close> computes: the retry reads the same semicolon again and never returns.
\<close>

definition scanToken :: "Lexer \<Rightarrow> (Token \<times> Lexer) option" where
  "scanToken L0 =
    (let L1 = skipWhitespace L0;
         L = L1\<lparr>start := current L1, line_start := Lexer.line L1, column_start := Lexer.column L1\<rparr>
     in if isAtEnd L then Some (makeToken T_End L, L)
        else case advance L of (c, L2) \<Rightarrow>
          if isAlpha c then Some (Lexer_identifier L2)
          else if isdigit c then Some (number L2)
          else if c = CHR 0x22 then Some (stringLiteral L2)
          else if char_value c = char_value CHR ''('' then Some (makeToken T_LParen L2, L2)
          else if char_value c = char_value CHR '')'' then Some (makeToken T_RParen L2, L2)
          else if char_value c = char_value CHR ''{'' then Some (makeToken T_LBrace L2, L2)
          else if char_value c = char_value CHR ''['' then Some (makeToken T_LBracket L2, L2)
          else if char_value c = char_value CHR ''<'' then Some (makeToken T_Less L2, L2)
          else if char_value c = multichar CHR ''<'' CHR ''='' then Some (makeToken T_LessEqual L2, L2)
          else if char_value c = char_value CHR ''>'' then Some (makeToken T_Greater L2, L2)
          else if char_value c = multichar CHR ''>'' CHR ''='' then Some (makeToken T_GreaterEqual L2, L2)
          else if char_value c = char_value CHR '']'' then Some (makeToken T_RBracket L2, L2)
          else if char_value c = char_value CHR ''}'' then Some (makeToken T_RBrace L2, L2)
          else if char_value c = char_value CHR '';'' then
            (if current L2 > 1 \<and> source L2 ! (current L2 - 2) = CHR 0x0A
             then None
             else Some (makeToken T_Semicolon L2, L2))
          else if char_value c = char_value CHR '':'' then Some (makeToken T_Colon L2, L2)
          else if char_value c = char_value CHR '','' then Some (makeToken T_Comma L2, L2)
          else if char_value c = char_value CHR ''='' then
            (case match CHR ''='' L2 of
               (True, L3) \<Rightarrow> Some (makeToken T_EqualEqual L3, L3)
             | (False, L3) \<Rightarrow> Some (makeToken T_Equal L3, L3))
          else if char_value c = char_value CHR ''+'' then
            (case match CHR ''+'' L2 of
               (True, L3) \<Rightarrow> Some (makeToken T_PlusPlus L3, L3)
             | (False, L3) \<Rightarrow> Some (makeToken T_Plus L3, L3))
          else if char_value c = char_value CHR ''-'' then
            (case match CHR ''-'' L2 of
               (True, L3) \<Rightarrow> Some (makeToken T_MinusMinus L3, L3)
             | (False, L3) \<Rightarrow> Some (makeToken T_Minus L3, L3))
          else if char_value c = char_value CHR ''*'' then Some (makeToken T_Star L2, L2)
          else if char_value c = char_value CHR ''/'' then Some (makeToken T_Slash L2, L2)
          else Some (errorToken ''Unexpected character'' L2, L2))"

text \<open>A lexer positioned on a semicolon that directly follows a newline.\<close>

definition stuck :: "Lexer \<Rightarrow> bool" where
  "stuck L =
    (current L < length (source L) \<and> source L ! current L = CHR '';''
     \<and> 1 \<le> current L \<and> source L ! (current L - 1) = CHR 0x0A)"

lemma char_value_inj: "char_value c = char_value d \<Longrightarrow> c = d"
proof -
  assume a: "char_value c = char_value d"
  have c: "(of_char c :: int) < 256" "(0::int) \<le> of_char c" by (simp_all add: of_char_def)
  have d: "(of_char d :: int) < 256" "(0::int) \<le> of_char d" by (simp_all add: of_char_def)
  from a c d have "(of_char c :: int) = of_char d"
    by (auto simp: char_value_def split: if_splits)
  then show ?thesis by simp
qed

lemma stuck_skipWhitespace: "stuck L \<Longrightarrow> skipWhitespace L = L"
  by (subst skipWhitespace.simps) (simp add: stuck_def peek_def isAtEnd_def)

lemma nextToken_stuck:
  assumes "nextToken L = Some r"
  shows "\<not> stuck L"
proof (rule nextToken.raw_induct [where P = "\<lambda>L r. \<not> stuck L", OF _ assms], goal_cases)
  case (1 f L0 r)
  show ?case
  proof
    assume s: "stuck L0"
    define L2 where "L2 = L0\<lparr>start := current L0, line_start := Lexer.line L0,
        column_start := Lexer.column L0, Lexer.column := Lexer.column L0 + 1\<rparr>"
    from s have s2: "stuck L2" by (simp add: stuck_def L2_def)
    from s 1(2) have "f L2 = Some r"
      by (simp add: stuck_skipWhitespace Let_def L2_def)
         (simp add: stuck_def isAtEnd_def advance_def Let_def isAlpha_def isdigit_def
            char_value_def multichar_def)
    with 1(1) s2 show False by blast
  qed
qed

lemma nextToken_retry:
  assumes "advance L = (c, L2)" "\<not> isAtEnd L" "char_value c = char_value CHR '';''"
    "1 < current L2" "source L2 ! (current L2 - 2) = CHR 0x0A"
  shows "nextToken (L2\<lparr>current := current L2 - 1\<rparr>) = None"
proof -
  from assms(3) have c: "c = CHR '';''" by (rule char_value_inj)
  from assms(1,2) have "current L2 = current L + 1" "source L2 = source L" "c = source L ! current L"
    by (auto simp: advance_def Let_def split: if_splits)
  with assms c have "stuck (L2\<lparr>current := current L2 - 1\<rparr>)"
    by (simp add: stuck_def isAtEnd_def numeral_2_eq_2)
  then show ?thesis
    using nextToken_stuck by (cases "nextToken (L2\<lparr>current := current L2 - 1\<rparr>)") blast+
qed

lemma nextToken_scanToken [code]: "nextToken L0 = scanToken L0"
proof -
  define L where "L = (skipWhitespace L0)\<lparr>start := current (skipWhitespace L0),
    line_start := Lexer.line (skipWhitespace L0), column_start := Lexer.column (skipWhitespace L0)\<rparr>"
  show ?thesis
  proof (cases "isAtEnd L")
    case True
    then show ?thesis
      by (subst nextToken.simps) (simp add: scanToken_def Let_def L_def)
  next
    case False
    obtain c L2 where adv: "advance L = (c, L2)"
      by (cases "advance L")
    show ?thesis
    proof (cases "char_value c = char_value CHR '';''")
      case ne: False
      show ?thesis
        using False adv ne
        by (subst nextToken.simps) (simp add: scanToken_def Let_def L_def [symmetric])
    next
      case True
      then have c: "c = CHR '';''" by (rule char_value_inj)
      show ?thesis
      proof (cases "1 < current L2 \<and> source L2 ! (current L2 - 2) = CHR 0x0A")
        case r: True
        then have "nextToken (L2\<lparr>current := current L2 - 1\<rparr>) = None"
          using nextToken_retry [OF adv False True] by simp
        moreover have "nextToken L0 = nextToken (L2\<lparr>current := current L2 - 1\<rparr>)"
          using False adv r unfolding c
          by (subst nextToken.simps)
             (simp add: Let_def L_def [symmetric] isAlpha_def isdigit_def char_value_def multichar_def)
        moreover have "scanToken L0 = None"
          using False adv r unfolding c
          by (simp add: scanToken_def Let_def L_def [symmetric] isAlpha_def isdigit_def char_value_def multichar_def)
        ultimately show ?thesis by simp
      next
        case r: False
        have "nextToken L0 = Some (makeToken T_Semicolon L2, L2)"
          using False adv r unfolding c
          by (subst nextToken.simps)
             (auto simp add: Let_def L_def [symmetric] isAlpha_def isdigit_def char_value_def multichar_def)
        moreover have "scanToken L0 = Some (makeToken T_Semicolon L2, L2)"
          using False adv r unfolding c
          by (auto simp add: scanToken_def Let_def L_def [symmetric] isAlpha_def isdigit_def char_value_def multichar_def)
        ultimately show ?thesis by simp
      qed
    qed
  qed
qed

section \<open>Syntax trees (parser.h)\<close>

text \<open>
  The program's \<^verbatim>\<open>int\<close> is a 32-bit machine integer: addition, subtraction and
  multiplication wrap around, and \<open>sint\<close> reads the signed value.
\<close>

type_synonym cint = "32 word"

text \<open>
  The node classes derived from \<^verbatim>\<open>ASTNode\<close>, one constructor per class. The first two
  arguments are the \<^verbatim>\<open>line\<close> and \<^verbatim>\<open>column\<close> of the base class, the others the class's
  fields in the order of their declaration. \<open>Null\<close> is the null \<^verbatim>\<open>shared_ptr\<close>, which
  the parser stores in a \<^verbatim>\<open>ForStmt\<close> whose initializer, condition or increment is absent.
\<close>

datatype ASTNode =
    Null
  | FunctionDecl int int string "(string \<times> string) list" string "ASTNode list"
  | ReturnStmt int int ASTNode
  | PrintStmt int int ASTNode
  | BinaryExpr int int ASTNode string ASTNode
  | Identifier int int string
  | VarDecl int int string string ASTNode
  | AssignStmt int int string ASTNode
  | ExpressionStmt int int ASTNode
  | NumberLiteral int int cint
  | ForStmt int int ASTNode ASTNode ASTNode "ASTNode list"
  | ForEachStmt int int string string ASTNode "ASTNode list"
  | WhileStmt int int ASTNode "ASTNode list"
  | IndexExpr int int ASTNode ASTNode
  | CallExpr int int string "ASTNode list"
  | ArrayLiteral int int "ASTNode list"

section \<open>Parser (parser.cpp)\<close>

record Parser =
  lexer :: Lexer
  currentToken :: Token

text \<open>
  \<^verbatim>\<open>std::stoi\<close>: leading white space, an optional sign, then decimal digits up to the first
  other character. It throws \<^verbatim>\<open>std::invalid_argument\<close> when there is no digit and
  \<^verbatim>\<open>std::out_of_range\<close> when the value does not fit an \<^verbatim>\<open>int\<close>; the messages are
  those of the standard library that the program is built with (it includes \<^verbatim>\<open>Windows.h\<close>).
\<close>

definition isspace :: "char \<Rightarrow> bool" where
  "isspace c = (c = CHR '' '' \<or> (9 \<le> (of_char c :: nat) \<and> (of_char c :: nat) \<le> 13))"

definition digits_value :: "string \<Rightarrow> nat" where
  "digits_value ds = foldl (\<lambda>a c. 10 * a + (of_char c - 48)) 0 ds"

definition stoi :: "string \<Rightarrow> cint result" where
  "stoi s =
    (let s1 = dropWhile isspace s;
         neg = (s1 \<noteq> [] \<and> hd s1 = CHR ''-'');
         s2 = (if s1 \<noteq> [] \<and> (hd s1 = CHR ''-'' \<or> hd s1 = CHR ''+'') then tl s1 else s1);
         ds = takeWhile isdigit s2
     in if ds = [] then Throw ''invalid stoi argument''
        else let v = (if neg then - int (digits_value ds) else int (digits_value ds))
             in if v < - 2147483648 \<or> 2147483647 < v then Throw ''stoi argument out of range''
                else Ok (word_of_int v))"

text \<open>The constructor \<^verbatim>\<open>Parser(Lexer&)\<close> reads the first token.\<close>

definition Parser_new :: "Lexer \<Rightarrow> Parser result" where
  "Parser_new L =
    (case nextToken L of
       None \<Rightarrow> Diverge
     | Some (t, L1) \<Rightarrow> Ok \<lparr>lexer = L1, currentToken = t\<rparr>)"

definition Parser_advance :: "Parser \<Rightarrow> Parser result" where
  "Parser_advance P =
    (case nextToken (lexer P) of
       None \<Rightarrow> Diverge
     | Some (t, L1) \<Rightarrow> Ok (P\<lparr>lexer := L1, currentToken := t\<rparr>))"

definition expect :: "token_type \<Rightarrow> string \<Rightarrow> Parser \<Rightarrow> Parser result" where
  "expect ty msg P =
    (if type (currentToken P) \<noteq> ty
     then Throw (msg @ ''. Got: '' @ tokenTypeToString (type (currentToken P)) @ '' at line ''
            @ to_string (line (currentToken P)) @ '':'' @ to_string (column (currentToken P)))
     else Parser_advance P)"

definition parseType :: "Parser \<Rightarrow> (string \<times> Parser) result" where
  "parseType P =
    (if type (currentToken P) \<noteq> T_Int \<and> type (currentToken P) \<noteq> T_Double
        \<and> type (currentToken P) \<noteq> T_Bool
     then Throw (''Expected type. Got: '' @ tokenTypeToString (type (currentToken P)))
     else let ty = lexeme (currentToken P) in
       andThen (Parser_advance P) (\<lambda>P1.
         if type (currentToken P1) = T_LBracket
         then andThen (Parser_advance P1) (\<lambda>P2.
                andThen (expect T_RBracket ''Expected ']' after '[' in type'' P2) (\<lambda>P3.
                  Ok (ty @ ''[]'', P3)))
         else Ok (ty, P1)))"

definition parseParam :: "Parser \<Rightarrow> ((string \<times> string) \<times> Parser) result" where
  "parseParam P =
    (if type (currentToken P) \<noteq> T_Identifier then Throw ''Expected identifier in parameter''
     else let name = lexeme (currentToken P) in
       andThen (Parser_advance P) (\<lambda>P1.
         andThen (expect T_Colon ''Expected colon after parameter name'' P1) (\<lambda>P2.
           andThen (parseType P2) (\<lambda>(ty, P3). Ok ((name, ty), P3)))))"

text \<open>The condition of the operator loop of \<^verbatim>\<open>parseBinaryExpression\<close>.\<close>

definition isBinaryOperator :: "token_type \<Rightarrow> bool" where
  "isBinaryOperator ty =
    (ty = T_Plus \<or> ty = T_Minus \<or> ty = T_Star \<or> ty = T_Slash \<or> ty = T_Less \<or> ty = T_Greater
     \<or> ty = T_EqualEqual \<or> ty = T_BangEqual \<or> ty = T_LessEqual \<or> ty = T_GreaterEqual)"

text \<open>
  The recursive descent. Nothing in the source bounds the recursion, so every function takes
  a recursion bound that each call (and each iteration of a loop) decreases; \<open>OutOfFuel\<close>
  is the result when it reaches zero, and the bound is the measure of termination. The loops
  are functions of their own:
  \<^item> \<open>parseSuffixes\<close>: the \<^verbatim>\<open>while (true)\<close> after an identifier in
    \<^verbatim>\<open>parseBinaryExpression\<close> (call arguments and index suffixes);
  \<^item> \<open>parseOperators\<close>: the operator loop that ends \<^verbatim>\<open>parseBinaryExpression\<close>;
  \<^item> \<open>parseExpressionList\<close>: the \<^verbatim>\<open>do { ... } while (true)\<close> that collects
    comma-separated expressions, written three times in the source (call arguments in
    \<^verbatim>\<open>parseBinaryExpression\<close> and in \<^verbatim>\<open>parseStatement\<close>, elements of an array literal);
  \<^item> \<open>parseBlock_loop\<close>: the statement loop of \<^verbatim>\<open>parseBlock\<close>.
  The functions that parse expressions never call those that parse statements, so they are
  defined first, as one group of mutually recursive functions, and the statements after them.
\<close>

function parseExpression :: "nat \<Rightarrow> Parser \<Rightarrow> (ASTNode \<times> Parser) result"
  and parseBinaryExpression :: "nat \<Rightarrow> Parser \<Rightarrow> (ASTNode \<times> Parser) result"
  and parseSuffixes :: "nat \<Rightarrow> ASTNode \<Rightarrow> Parser \<Rightarrow> (ASTNode \<times> Parser) result"
  and parseOperators :: "nat \<Rightarrow> ASTNode \<Rightarrow> Parser \<Rightarrow> (ASTNode \<times> Parser) result"
  and parseExpressionList :: "nat \<Rightarrow> ASTNode list \<Rightarrow> Parser \<Rightarrow> (ASTNode list \<times> Parser) result"
where
  "parseExpression 0 P = OutOfFuel"
| "parseExpression (Suc n) P =
    andThen (parseBinaryExpression n P) (\<lambda>(left, P1).
      if type (currentToken P1) = T_Equal then
        (case left of
           Identifier l c name \<Rightarrow>
             andThen (Parser_advance P1) (\<lambda>P2.
               andThen (parseExpression n P2) (\<lambda>(val, P3).
                 Ok (AssignStmt (line (currentToken P1)) (column (currentToken P1)) name val, P3)))
         | _ \<Rightarrow> Throw ''Left side of assignment must be an identifier'')
      else if type (currentToken P1) = T_PlusPlus \<or> type (currentToken P1) = T_MinusMinus then
        (case left of
           Identifier l c name \<Rightarrow>
             (let ln = line (currentToken P1); col = column (currentToken P1);
                  op = (if type (currentToken P1) = T_PlusPlus then ''+'' else ''-'')
              in andThen (Parser_advance P1) (\<lambda>P2.
                   Ok (AssignStmt ln col name
                         (BinaryExpr ln col left op (NumberLiteral ln col 1)), P2)))
         | _ \<Rightarrow> Throw ''Left side of increment/decrement must be an identifier'')
      else Ok (left, P1))"
| "parseBinaryExpression 0 P = OutOfFuel"
| "parseBinaryExpression (Suc n) P =
    (let ct = currentToken P in
     andThen
       (if type ct = T_Identifier then
          andThen (Parser_advance P) (\<lambda>P1.
            parseSuffixes n (Identifier (line ct) (column ct) (lexeme ct)) P1)
        else if type ct = T_Number then
          andThen (stoi (lexeme ct)) (\<lambda>val.
            andThen (Parser_advance P) (\<lambda>P1.
              Ok (NumberLiteral (line ct) (column ct) val, P1)))
        else if type ct = T_LParen then
          andThen (Parser_advance P) (\<lambda>P1.
            andThen (parseExpression n P1) (\<lambda>(left, P2).
              andThen (expect T_RParen ''Expected ')' after expression'' P2) (\<lambda>P3.
                Ok (left, P3))))
        else if type ct = T_LBracket then
          andThen (Parser_advance P) (\<lambda>P1.
            andThen (if type (currentToken P1) \<noteq> T_RBracket
                     then parseExpressionList n [] P1 else Ok ([], P1)) (\<lambda>(elements, P2).
              andThen (expect T_RBracket ''Expected ']' after array literal'' P2) (\<lambda>P3.
                Ok (ArrayLiteral (line ct) (column ct) elements, P3))))
        else Throw (''Unsupported expression: '' @ tokenTypeToString (type ct) @ '' ''
                      @ [CHR 0x27] @ lexeme ct @ [CHR 0x27]))
       (\<lambda>(left, P1). parseOperators n left P1))"
| "parseSuffixes 0 left P = OutOfFuel"
| "parseSuffixes (Suc n) left P =
    (let ct = currentToken P in
     if type ct = T_LParen then
       andThen (Parser_advance P) (\<lambda>P1.
         andThen (if type (currentToken P1) \<noteq> T_RParen
                  then parseExpressionList n [] P1 else Ok ([], P1)) (\<lambda>(args, P2).
           andThen (expect T_RParen ''Expected ')' after function call'' P2) (\<lambda>P3.
             (case left of
                Identifier l c funcName \<Rightarrow>
                  parseSuffixes n (CallExpr (line ct) (column ct) funcName args) P3
              | _ \<Rightarrow> Crash))))
     else if type ct = T_LBracket then
       andThen (Parser_advance P) (\<lambda>P1.
         andThen (parseExpression n P1) (\<lambda>(indexExpr, P2).
           andThen (expect T_RBracket ''Expected ']' after array index'' P2) (\<lambda>P3.
             parseSuffixes n (IndexExpr (line ct) (column ct) left indexExpr) P3)))
     else Ok (left, P))"
| "parseOperators 0 left P = OutOfFuel"
| "parseOperators (Suc n) left P =
    (let ct = currentToken P in
     if isBinaryOperator (type ct) then
       andThen (Parser_advance P) (\<lambda>P1.
         andThen (parseExpression n P1) (\<lambda>(right, P2).
           parseOperators n (BinaryExpr (line ct) (column ct) left (lexeme ct) right) P2))
     else Ok (left, P))"
| "parseExpressionList 0 acc P = OutOfFuel"
| "parseExpressionList (Suc n) acc P =
    andThen (parseExpression n P) (\<lambda>(e, P1).
      if type (currentToken P1) = T_Comma
      then andThen (Parser_advance P1) (\<lambda>P2. parseExpressionList n (acc @ [e]) P2)
      else Ok (acc @ [e], P1))"
  by pat_completeness auto
termination
  by (relation "measure (case_sum (case_sum fst fst) (case_sum fst (case_sum fst fst)))")
     simp_all

function parseBlock :: "nat \<Rightarrow> Parser \<Rightarrow> (ASTNode list \<times> Parser) result"
  and parseBlock_loop :: "nat \<Rightarrow> ASTNode list \<Rightarrow> Parser \<Rightarrow> (ASTNode list \<times> Parser) result"
  and parseStatement :: "nat \<Rightarrow> Parser \<Rightarrow> (ASTNode \<times> Parser) result"
where
  "parseBlock 0 P = OutOfFuel"
| "parseBlock (Suc n) P =
    andThen (expect T_LBrace ''Expected '{' to start block'' P) (\<lambda>P1.
      andThen (parseBlock_loop n [] P1) (\<lambda>(body, P2).
        andThen (expect T_RBrace ''Expected '}' to end block'' P2) (\<lambda>P3.
          Ok (body, P3))))"
| "parseBlock_loop 0 body P = OutOfFuel"
| "parseBlock_loop (Suc n) body P =
    (let ct = currentToken P in
     if type ct \<noteq> T_RBrace \<and> type ct \<noteq> T_End then
       andThen
         (if type ct = T_Return then
            andThen (Parser_advance P) (\<lambda>P1.
              andThen (parseExpression n P1) (\<lambda>(expr, P2).
                andThen (expect T_Semicolon ''Expected ';' after return'' P2) (\<lambda>P3.
                  Ok (ReturnStmt (line ct) (column ct) expr, P3))))
          else if type ct = T_For then parseStatement n P
          else if type ct = T_While then parseStatement n P
          else if type ct = T_Print then
            andThen (Parser_advance P) (\<lambda>P1.
              andThen (expect T_LParen ''Expected '(' after print'' P1) (\<lambda>P2.
                andThen (parseExpression n P2) (\<lambda>(expr, P3).
                  andThen (expect T_RParen ''Expected ')' after print expression'' P3) (\<lambda>P4.
                    andThen (expect T_Semicolon ''Expected ';' after print'' P4) (\<lambda>P5.
                      Ok (PrintStmt (line ct) (column ct) expr, P5))))))
          else if type ct = T_Let then
            andThen (Parser_advance P) (\<lambda>P1.
              let name = lexeme (currentToken P1) in
              andThen (Parser_advance P1) (\<lambda>P2.
                andThen (expect T_Colon ''Expected ':' after variable name'' P2) (\<lambda>P3.
                  andThen (parseType P3) (\<lambda>(ty, P4).
                    andThen (expect T_Equal ''Expected '=' after type'' P4) (\<lambda>P5.
                      andThen (parseExpression n P5) (\<lambda>(initializer, P6).
                        andThen (expect T_Semicolon ''Expected ';' after variable declaration'' P6)
                          (\<lambda>P7. Ok (VarDecl (line ct) (column ct) name ty initializer, P7))))))))
          else if type ct = T_Identifier then
            andThen (Parser_advance P) (\<lambda>P1.
              if type (currentToken P1) = T_Equal then
                andThen (Parser_advance P1) (\<lambda>P2.
                  andThen (parseExpression n P2) (\<lambda>(val, P3).
                    andThen (expect T_Semicolon ''Expected ';' after assignment'' P3) (\<lambda>P4.
                      Ok (AssignStmt (line ct) (column ct) (lexeme ct) val, P4))))
              else
                andThen (parseExpression n P1) (\<lambda>(expr, P2).
                  andThen (expect T_Semicolon ''Expected ';' after expression'' P2) (\<lambda>P3.
                    Ok (ExpressionStmt (line ct) (column ct) expr, P3))))
          else Throw (''Unsupported statement in block: '' @ tokenTypeToString (type ct)
                        @ '' ('' @ [CHR 0x27] @ lexeme ct @ [CHR 0x27] @ '') at line ''
                        @ to_string (line ct) @ '':'' @ to_string (column ct)))
         (\<lambda>(stmt, P1). parseBlock_loop n (body @ [stmt]) P1)
     else Ok (body, P))"
| "parseStatement 0 P = OutOfFuel"
| "parseStatement (Suc n) P =
    (let ct = currentToken P in
     if type ct = T_Return then
       andThen (Parser_advance P) (\<lambda>P1.
         andThen (parseExpression n P1) (\<lambda>(expr, P2).
           andThen (expect T_Semicolon ''Expected ';' after return'' P2) (\<lambda>P3.
             Ok (ReturnStmt (line ct) (column ct) expr, P3))))
     else if type ct = T_Print then
       andThen (Parser_advance P) (\<lambda>P1.
         andThen (expect T_LParen ''Expected '(' after print'' P1) (\<lambda>P2.
           andThen (parseExpression n P2) (\<lambda>(expr, P3).
             andThen (expect T_RParen ''Expected ')' after print expression'' P3) (\<lambda>P4.
               andThen (expect T_Semicolon ''Expected ';' after print'' P4) (\<lambda>P5.
                 Ok (PrintStmt (line ct) (column ct) expr, P5))))))
     else if type ct = T_Let then
       andThen (Parser_advance P) (\<lambda>P1.
         if type (currentToken P1) \<noteq> T_Identifier
         then Throw (''Expected identifier after '' @ [CHR 0x27] @ ''let'' @ [CHR 0x27])
         else let name = lexeme (currentToken P1) in
           andThen (Parser_advance P1) (\<lambda>P2.
             andThen (expect T_Colon ''Expected ':' after variable name'' P2) (\<lambda>P3.
               andThen (parseType P3) (\<lambda>(ty, P4).
                 andThen (expect T_Equal ''Expected '=' after type'' P4) (\<lambda>P5.
                   andThen (parseExpression n P5) (\<lambda>(initializer, P6).
                     andThen (expect T_Semicolon ''Expected ';' after variable declaration'' P6)
                       (\<lambda>P7. Ok (VarDecl (line ct) (column ct) name ty initializer, P7))))))))
     else if type ct = T_Identifier then
       andThen (Parser_advance P) (\<lambda>P1.
         if type (currentToken P1) = T_Equal then
           andThen (Parser_advance P1) (\<lambda>P2.
             andThen (parseExpression n P2) (\<lambda>(val, P3).
               andThen (expect T_Semicolon ''Expected ';' after assignment'' P3) (\<lambda>P4.
                 Ok (AssignStmt (line ct) (column ct) (lexeme ct) val, P4))))
         else if type (currentToken P1) = T_LParen then
           andThen (Parser_advance P1) (\<lambda>P2.
             andThen (if type (currentToken P2) \<noteq> T_RParen
                      then parseExpressionList n [] P2 else Ok ([], P2)) (\<lambda>(args, P3).
               andThen (expect T_RParen ''Expected ')' after function call'' P3) (\<lambda>P4.
                 andThen (expect T_Semicolon ''Expected ';' after function call'' P4) (\<lambda>P5.
                   Ok (CallExpr (line ct) (column ct) (lexeme ct) args, P5)))))
         else
           andThen (expect T_Semicolon ''Expected ';' after expression'' P1) (\<lambda>P2.
             Ok (ExpressionStmt (line ct) (column ct)
                   (Identifier (line ct) (column ct) (lexeme ct)), P2)))
     else if type ct = T_For then
       andThen (Parser_advance P) (\<lambda>P1.
         andThen (expect T_LParen ''Expected '(' after for'' P1) (\<lambda>P2.
           andThen
             (if type (currentToken P2) \<noteq> T_Semicolon then
                andThen
                  (if type (currentToken P2) = T_Let then
                     andThen (Parser_advance P2) (\<lambda>Q1.
                       if type (currentToken Q1) \<noteq> T_Identifier
                       then Throw (''Expected identifier after '' @ [CHR 0x27] @ ''let''
                                     @ [CHR 0x27])
                       else let name = lexeme (currentToken Q1) in
                         andThen (Parser_advance Q1) (\<lambda>Q2.
                           andThen (expect T_Colon ''Expected ':' after variable name'' Q2) (\<lambda>Q3.
                             andThen (parseType Q3) (\<lambda>(ty, Q4).
                               andThen (expect T_Equal ''Expected '=' after type'' Q4) (\<lambda>Q5.
                                 andThen (parseExpression n Q5) (\<lambda>(initializer, Q6).
                                   Ok (VarDecl (line (currentToken P2)) (column (currentToken P2))
                                         name ty initializer, Q6)))))))
                   else if type (currentToken P2) = T_Identifier then
                     andThen (Parser_advance P2) (\<lambda>Q1.
                       andThen (expect T_Equal ''Expected '=' after variable name'' Q1) (\<lambda>Q2.
                         andThen (parseExpression n Q2) (\<lambda>(val, Q3).
                           Ok (AssignStmt (line (currentToken P2)) (column (currentToken P2))
                                 (lexeme (currentToken P2)) val, Q3))))
                   else Throw ''Unsupported for-loop initializer'')
                  (\<lambda>(init, Q). andThen (expect T_Semicolon ''Expected ';' after for initializer'' Q)
                                  (\<lambda>Q'. Ok (init, Q')))
              else andThen (Parser_advance P2) (\<lambda>Q. Ok (Null, Q)))
             (\<lambda>(init, P3).
               andThen (if type (currentToken P3) \<noteq> T_Semicolon
                        then parseExpression n P3 else Ok (Null, P3)) (\<lambda>(condition, P4).
                 andThen (expect T_Semicolon ''Expected ';' after for condition'' P4) (\<lambda>P5.
                   andThen (if type (currentToken P5) \<noteq> T_RParen
                            then parseExpression n P5 else Ok (Null, P5)) (\<lambda>(increment, P6).
                     andThen (expect T_RParen ''Expected ')' after for increment'' P6) (\<lambda>P7.
                       andThen (parseBlock n P7) (\<lambda>(body, P8).
                         Ok (ForStmt (line ct) (column ct) init condition increment body, P8)))))))))
     else if type ct = T_While then
       andThen (Parser_advance P) (\<lambda>P1.
         andThen (expect T_LParen ''Expected '(' after while'' P1) (\<lambda>P2.
           andThen (parseExpression n P2) (\<lambda>(condition, P3).
             andThen (expect T_RParen ''Expected ')' after while'' P3) (\<lambda>P4.
               andThen (parseBlock n P4) (\<lambda>(body, P5).
                 Ok (WhileStmt (line ct) (column ct) condition body, P5))))))
     else Throw ''Unsupported statement at top level'')"
  by pat_completeness auto
termination
  by (relation "measure (case_sum fst (case_sum fst fst))") simp_all

text \<open>The parameter loop of \<^verbatim>\<open>parseFunction\<close>.\<close>

fun parseParams :: "nat \<Rightarrow> (string \<times> string) list \<Rightarrow> Parser \<Rightarrow> ((string \<times> string) list \<times> Parser) result"
where
  "parseParams 0 params P = OutOfFuel"
| "parseParams (Suc n) params P =
    andThen (parseParam P) (\<lambda>(param, P1).
      if type (currentToken P1) = T_Comma
      then andThen (Parser_advance P1) (\<lambda>P2. parseParams n (params @ [param]) P2)
      else Ok (params @ [param], P1))"

definition parseFunction :: "nat \<Rightarrow> Parser \<Rightarrow> (ASTNode \<times> Parser) result" where
  "parseFunction n P =
    andThen (expect T_Function ''Expected 'function' keyword'' P) (\<lambda>P1.
      if type (currentToken P1) \<noteq> T_Identifier then Throw ''Expected function name''
      else let ct = currentToken P1 in
        andThen (Parser_advance P1) (\<lambda>P2.
          andThen (expect T_LParen ''Expected '(' after function name'' P2) (\<lambda>P3.
            andThen (if type (currentToken P3) \<noteq> T_RParen
                     then parseParams n [] P3 else Ok ([], P3)) (\<lambda>(params, P4).
              andThen (expect T_RParen ''Expected ')' after parameters'' P4) (\<lambda>P5.
                andThen (if type (currentToken P5) = T_Colon
                         then andThen (Parser_advance P5) parseType
                         else Ok (''void'', P5)) (\<lambda>(returnType, P6).
                  andThen (parseBlock n P6) (\<lambda>(body, P7).
                    Ok (FunctionDecl (line ct) (column ct) (lexeme ct) params returnType body,
                        P7))))))))"

definition parseTopLevel :: "nat \<Rightarrow> Parser \<Rightarrow> (ASTNode \<times> Parser) result" where
  "parseTopLevel n P =
    (if type (currentToken P) = T_Function then parseFunction n P else parseStatement n P)"

definition Parser_isAtEnd :: "Parser \<Rightarrow> bool" where
  "Parser_isAtEnd P = (type (currentToken P) = T_End)"

section \<open>Interpreter (interpreter.h)\<close>

text \<open>
  The two maps of the \<^verbatim>\<open>Interpreter\<close> object, and with them the characters written to
  \<^verbatim>\<open>std::cout\<close> so far. An exception leaves the object as it is at the \<^verbatim>\<open>throw\<close>, so every
  function returns the state next to its result, whatever the result is.
\<close>

record Interpreter =
  variables :: "string \<rightharpoonup> cint"
  "functions" :: "string \<rightharpoonup> ASTNode"
  cout :: string

definition Interpreter_new :: Interpreter where
  "Interpreter_new = \<lparr>variables = Map.empty, functions = Map.empty, cout = []\<rparr>"

fun thenI :: "'a result \<times> Interpreter \<Rightarrow> ('a \<Rightarrow> Interpreter \<Rightarrow> 'b result \<times> Interpreter)
    \<Rightarrow> 'b result \<times> Interpreter" where
  "thenI (Ok a, S) f = f a S"
| "thenI (Throw e, S) f = (Throw e, S)"
| "thenI (Crash, S) f = (Crash, S)"
| "thenI (Diverge, S) f = (Diverge, S)"
| "thenI (OutOfFuel, S) f = (OutOfFuel, S)"

definition addFunction :: "string \<Rightarrow> ASTNode \<Rightarrow> Interpreter \<Rightarrow> Interpreter" where
  "addFunction name func S = S\<lparr>functions := (functions S)(name \<mapsto> func)\<rparr>"

text \<open>\<^verbatim>\<open>std::cout << val << std::endl\<close>.\<close>

definition print_line :: "cint \<Rightarrow> Interpreter \<Rightarrow> Interpreter" where
  "print_line val S = S\<lparr>cout := cout S @ to_string (sint val) @ [CHR 0x0A]\<rparr>"

definition evalArray :: "ASTNode \<Rightarrow> cint list result" where
  "evalArray node =
    (case node of
       Identifier l c name \<Rightarrow> Throw (''Array support not implemented yet for: '' @ name)
     | _ \<Rightarrow> Throw ''Unsupported iterable type'')"

text \<open>
  The chain of comparisons on \<^verbatim>\<open>bin->op\<close> in \<^verbatim>\<open>evalExpr\<close>. The machine's division
  truncates towards zero; dividing by zero, or the least \<^verbatim>\<open>int\<close> by \<open>-1\<close>, is undefined
  behaviour, and the source does not check for it.
\<close>

definition applyOperator :: "string \<Rightarrow> cint \<Rightarrow> cint \<Rightarrow> cint result" where
  "applyOperator op left right =
    (if op = ''+'' then Ok (left + right)
     else if op = ''-'' then Ok (left - right)
     else if op = ''*'' then Ok (left * right)
     else if op = ''/'' then
       (if right = 0 \<or> (sint left = - 2147483648 \<and> sint right = - 1) then Crash
        else Ok (word_of_int (sint left sdiv sint right)))
     else if op = ''<'' then Ok (if sint left < sint right then 1 else 0)
     else if op = ''<='' then Ok (if sint left \<le> sint right then 1 else 0)
     else if op = ''>'' then Ok (if sint left > sint right then 1 else 0)
     else if op = ''>='' then Ok (if sint left \<ge> sint right then 1 else 0)
     else Throw (''Unsupported operator: '' @ op))"

text \<open>
  The loop of \<^verbatim>\<open>execFunction\<close> that binds the parameters:
  \<^verbatim>\<open>for (size_t i = 0; i < func->params.size(); ++i) variables[func->params[i].first] = args[i];\<close>
  \<^verbatim>\<open>args[i]\<close> is an unchecked read of a \<^verbatim>\<open>std::vector\<close>, undefined out of range.
\<close>

function bindParams :: "(string \<times> string) list \<Rightarrow> cint list \<Rightarrow> nat \<Rightarrow> (string \<rightharpoonup> cint)
    \<Rightarrow> (string \<rightharpoonup> cint) result" where
  "bindParams params args i vars =
    (if i < length params then
       (if i < length args
        then bindParams params args (i + 1) (vars(fst (params ! i) \<mapsto> args ! i))
        else Crash)
     else Ok vars)"
  by pat_completeness auto
termination
  by (relation "measure (\<lambda>(params, args, i, vars). length params - i)") auto

declare bindParams.simps [simp del]


text \<open>
  The interpreter. As in the parser, each call and each iteration of a loop decreases a
  recursion bound. The loops are functions of their own:
  \<^item> \<open>evalArgs\<close>: \<^verbatim>\<open>for (auto& arg : call->args) argvals.push_back(evalExpr(arg));\<close>
  \<^item> \<open>execBody\<close>: the loop of \<^verbatim>\<open>execFunction\<close> over \<^verbatim>\<open>func->body\<close>; its result is
    \<^verbatim>\<open>returnValue\<close>;
  \<^item> \<open>execStatements\<close>: \<^verbatim>\<open>for (auto& s : body) execStatement(s);\<close>
  \<^item> \<open>forLoop\<close>: a \<^verbatim>\<open>for\<close> statement after its initializer has run; \<open>whileLoop\<close>;
  \<^item> \<open>forEachLoop\<close>: \<^verbatim>\<open>for (auto val : arr) { ... }\<close>.
  In \<^verbatim>\<open>variables[name] = evalExpr(e)\<close> the right-hand side is evaluated before the entry
  of the map is created, the order that C++17 prescribes.
\<close>

function evalExpr :: "nat \<Rightarrow> ASTNode \<Rightarrow> Interpreter \<Rightarrow> cint result \<times> Interpreter"
  and evalArgs :: "nat \<Rightarrow> ASTNode list \<Rightarrow> cint list \<Rightarrow> Interpreter \<Rightarrow> cint list result \<times> Interpreter"
  and callFunction :: "nat \<Rightarrow> string \<Rightarrow> cint list \<Rightarrow> Interpreter \<Rightarrow> cint result \<times> Interpreter"
  and execFunction :: "nat \<Rightarrow> ASTNode \<Rightarrow> cint list \<Rightarrow> Interpreter \<Rightarrow> cint result \<times> Interpreter"
  and execBody :: "nat \<Rightarrow> ASTNode list \<Rightarrow> Interpreter \<Rightarrow> cint result \<times> Interpreter"
  and execStatement :: "nat \<Rightarrow> ASTNode \<Rightarrow> Interpreter \<Rightarrow> unit result \<times> Interpreter"
  and execStatements :: "nat \<Rightarrow> ASTNode list \<Rightarrow> Interpreter \<Rightarrow> unit result \<times> Interpreter"
  and forLoop :: "nat \<Rightarrow> ASTNode \<Rightarrow> ASTNode \<Rightarrow> ASTNode list \<Rightarrow> Interpreter \<Rightarrow> unit result \<times> Interpreter"
  and whileLoop :: "nat \<Rightarrow> ASTNode \<Rightarrow> ASTNode list \<Rightarrow> Interpreter \<Rightarrow> unit result \<times> Interpreter"
  and forEachLoop :: "nat \<Rightarrow> string \<Rightarrow> cint list \<Rightarrow> ASTNode list \<Rightarrow> Interpreter \<Rightarrow> unit result \<times> Interpreter"
where
  "evalExpr 0 node S = (OutOfFuel, S)"
| "evalExpr (Suc n) node S =
    (case node of
       Identifier l c name \<Rightarrow>
         (case variables S name of
            Some v \<Rightarrow> (Ok v, S)
          | None \<Rightarrow> (Throw (''Undefined variable: '' @ name), S))
     | BinaryExpr l c left op right \<Rightarrow>
         thenI (evalExpr n left S) (\<lambda>lv S1.
           thenI (evalExpr n right S1) (\<lambda>rv S2. (applyOperator op lv rv, S2)))
     | NumberLiteral l c v \<Rightarrow> (Ok v, S)
     | CallExpr l c funcName args \<Rightarrow>
         thenI (evalArgs n args [] S) (\<lambda>argvals S1. callFunction n funcName argvals S1)
     | _ \<Rightarrow> (Throw ''Unknown expression type'', S))"
| "evalArgs 0 args argvals S = (OutOfFuel, S)"
| "evalArgs (Suc n) args argvals S =
    (case args of
       [] \<Rightarrow> (Ok argvals, S)
     | arg # rest \<Rightarrow> thenI (evalExpr n arg S) (\<lambda>v S1. evalArgs n rest (argvals @ [v]) S1))"
| "callFunction 0 name args S = (OutOfFuel, S)"
| "callFunction (Suc n) name args S =
    (case functions S name of
       None \<Rightarrow> (Throw (''Function not found: '' @ name), S)
     | Some func \<Rightarrow> execFunction n func args S)"
| "execFunction 0 func args S = (OutOfFuel, S)"
| "execFunction (Suc n) func args S =
    (case func of
       FunctionDecl l c name params returnType body \<Rightarrow>
         (let savedVariables = variables S in
          case bindParams params args 0 (variables S) of
            Ok vars \<Rightarrow>
              thenI (execBody n body (S\<lparr>variables := vars\<rparr>)) (\<lambda>returnValue S1.
                (Ok returnValue, S1\<lparr>variables := savedVariables\<rparr>))
          | _ \<Rightarrow> (Crash, S))
     | _ \<Rightarrow> (Crash, S))"
| "execBody 0 stmts S = (OutOfFuel, S)"
| "execBody (Suc n) stmts S =
    (case stmts of
       [] \<Rightarrow> (Ok 0, S)
     | stmt # rest \<Rightarrow>
         (case stmt of
            PrintStmt l c expression \<Rightarrow>
              thenI (evalExpr n expression S) (\<lambda>val S1. execBody n rest (print_line val S1))
          | ReturnStmt l c expression \<Rightarrow> evalExpr n expression S
          | VarDecl l c name ty initializer \<Rightarrow>
              thenI (evalExpr n initializer S) (\<lambda>v S1.
                execBody n rest (S1\<lparr>variables := (variables S1)(name \<mapsto> v)\<rparr>))
          | AssignStmt l c name val \<Rightarrow>
              thenI (evalExpr n val S) (\<lambda>v S1.
                execBody n rest (S1\<lparr>variables := (variables S1)(name \<mapsto> v)\<rparr>))
          | ExpressionStmt l c expr \<Rightarrow>
              thenI (evalExpr n expr S) (\<lambda>v S1. execBody n rest S1)
          | ForStmt l c init condition increment body \<Rightarrow>
              thenI (execStatement n init S) (\<lambda>u S1.
                thenI (forLoop n condition increment body S1) (\<lambda>u S2. execBody n rest S2))
          | WhileStmt l c condition body \<Rightarrow>
              thenI (whileLoop n condition body S) (\<lambda>u S1. execBody n rest S1)
          | ForEachStmt l c varName varType iterable body \<Rightarrow>
              thenI (evalArray iterable, S) (\<lambda>arr S1.
                thenI (forEachLoop n varName arr body S1) (\<lambda>u S2. execBody n rest S2))
          | CallExpr l c funcName args \<Rightarrow>
              thenI (evalArgs n args [] S) (\<lambda>argvals S1.
                thenI (callFunction n funcName argvals S1) (\<lambda>v S2. execBody n rest S2))
          | _ \<Rightarrow> execBody n rest S))"
| "execStatement 0 stmt S = (OutOfFuel, S)"
| "execStatement (Suc n) stmt S =
    (case stmt of
       ForStmt l c init condition increment body \<Rightarrow>
         thenI (execStatement n init S) (\<lambda>u S1. forLoop n condition increment body S1)
     | WhileStmt l c condition body \<Rightarrow> whileLoop n condition body S
     | ForEachStmt l c varName varType iterable body \<Rightarrow>
         thenI (evalArray iterable, S) (\<lambda>arr S1. forEachLoop n varName arr body S1)
     | CallExpr l c funcName args \<Rightarrow>
         thenI (evalArgs n args [] S) (\<lambda>argvals S1.
           thenI (callFunction n funcName argvals S1) (\<lambda>v S2. (Ok (), S2)))
     | PrintStmt l c expression \<Rightarrow>
         thenI (evalExpr n expression S) (\<lambda>val S1. (Ok (), print_line val S1))
     | VarDecl l c name ty initializer \<Rightarrow>
         thenI (evalExpr n initializer S) (\<lambda>v S1.
           (Ok (), S1\<lparr>variables := (variables S1)(name \<mapsto> v)\<rparr>))
     | AssignStmt l c name val \<Rightarrow>
         thenI (evalExpr n val S) (\<lambda>v S1.
           (Ok (), S1\<lparr>variables := (variables S1)(name \<mapsto> v)\<rparr>))
     | ExpressionStmt l c expr \<Rightarrow> thenI (evalExpr n expr S) (\<lambda>v S1. (Ok (), S1))
     | ReturnStmt l c expression \<Rightarrow> thenI (evalExpr n expression S) (\<lambda>v S1. (Ok (), S1))
     | _ \<Rightarrow> (Throw ''Unsupported statement at top level'', S))"
| "execStatements 0 stmts S = (OutOfFuel, S)"
| "execStatements (Suc n) stmts S =
    (case stmts of
       [] \<Rightarrow> (Ok (), S)
     | s # rest \<Rightarrow> thenI (execStatement n s S) (\<lambda>u S1. execStatements n rest S1))"
| "forLoop 0 condition increment body S = (OutOfFuel, S)"
| "forLoop (Suc n) condition increment body S =
    thenI (evalExpr n condition S) (\<lambda>cond S1.
      if cond \<noteq> 0 then
        thenI (execStatements n body S1) (\<lambda>u S2.
          thenI (execStatement n increment S2) (\<lambda>u S3. forLoop n condition increment body S3))
      else (Ok (), S1))"
| "whileLoop 0 condition body S = (OutOfFuel, S)"
| "whileLoop (Suc n) condition body S =
    thenI (evalExpr n condition S) (\<lambda>cond S1.
      if cond \<noteq> 0 then
        thenI (execStatements n body S1) (\<lambda>u S2. whileLoop n condition body S2)
      else (Ok (), S1))"
| "forEachLoop 0 varName arr body S = (OutOfFuel, S)"
| "forEachLoop (Suc n) varName arr body S =
    (case arr of
       [] \<Rightarrow> (Ok (), S)
     | val # rest \<Rightarrow>
         thenI (execStatements n body (S\<lparr>variables := (variables S)(varName \<mapsto> val)\<rparr>))
           (\<lambda>u S1. forEachLoop n varName rest body S1))"
  by pat_completeness auto
termination
  by (relation "measure (case_sum
        (case_sum (case_sum fst fst) (case_sum fst (case_sum fst fst)))
        (case_sum (case_sum fst fst) (case_sum fst (case_sum fst fst))))")
     simp_all

section \<open>Driver (entry.cpp)\<close>

text \<open>The source text that \<^verbatim>\<open>main\<close> holds as a raw string literal.\<close>

definition main_code :: string where
  "main_code =
     [CHR 0x0A]
     @ [CHR 0x0A]
     @ ''        function main(): int '' @ [CHR 0x0A]
     @ ''        {'' @ [CHR 0x0A]
     @ ''            for (let i: int = 0; i < 10; i++) {'' @ [CHR 0x0A]
     @ ''                print(i);'' @ [CHR 0x0A]
     @ ''            } //Our for loop'' @ [CHR 0x0A]
     @ [CHR 0x0A]
     @ [CHR 0x09] @ [CHR 0x09] @ [CHR 0x09] @ ''return 0; //Our function return'' @ [CHR 0x0A]
     @ ''        }'' @ [CHR 0x0A]
     @ [CHR 0x0A]"

text \<open>The loop \<^verbatim>\<open>while (!parser.isAtEnd())\<close> of \<^verbatim>\<open>main\<close>.\<close>

fun main_loop :: "nat \<Rightarrow> Parser \<Rightarrow> Interpreter \<Rightarrow> unit result \<times> Interpreter" where
  "main_loop 0 P S = (OutOfFuel, S)"
| "main_loop (Suc n) P S =
    (if \<not> Parser_isAtEnd P then
       thenI (parseTopLevel n P, S) (\<lambda>(node, P1) S1.
         case node of
           FunctionDecl l c name params returnType body \<Rightarrow> main_loop n P1 (addFunction name node S1)
         | _ \<Rightarrow> thenI (execStatement n node S1) (\<lambda>u S2. main_loop n P1 S2))
     else (Ok (), S))"

text \<open>
  The \<^verbatim>\<open>try\<close> block of \<^verbatim>\<open>main\<close>, for any source text in the place of the literal: lexer,
  parser and interpreter are created, the top-level constructs are read and run one at a
  time, and a function \<^verbatim>\<open>main\<close> of the program, when there is one, is called and its result
  reported.
\<close>

definition main_try :: "nat \<Rightarrow> string \<Rightarrow> unit result \<times> Interpreter" where
  "main_try n code =
    thenI (Parser_new (Lexer_new code), Interpreter_new) (\<lambda>P S.
      thenI (main_loop n P S) (\<lambda>u S1.
        if functions S1 ''main'' \<noteq> None then
          thenI (callFunction n ''main'' [] S1) (\<lambda>res S2.
            (Ok (), S2\<lparr>cout := cout S2 @ ''main() returned: '' @ to_string (sint res) @ [CHR 0x0A]\<rparr>))
        else (Ok (), S1)))"

text \<open>
  \<^verbatim>\<open>main\<close>: the exit status, what was written to \<^verbatim>\<open>std::cout\<close> and what was written to
  \<^verbatim>\<open>std::cerr\<close>. The \<^verbatim>\<open>catch\<close> clause turns an exception into a line on \<^verbatim>\<open>std::cerr\<close> and
  the status 1.
\<close>

definition main :: "nat \<Rightarrow> string \<Rightarrow> int result \<times> string \<times> string" where
  "main n code =
    (case main_try n code of
       (Ok u, S) \<Rightarrow> (Ok 0, cout S, [])
     | (Throw e, S) \<Rightarrow> (Ok 1, cout S, ''Error: '' @ e @ [CHR 0x0A])
     | (Crash, S) \<Rightarrow> (Crash, cout S, [])
     | (Diverge, S) \<Rightarrow> (Diverge, cout S, [])
     | (OutOfFuel, S) \<Rightarrow> (OutOfFuel, cout S, []))"

section \<open>Properties of the lexer\<close>

text \<open>
  \<^verbatim>\<open>nextToken\<close> called again and again, up to the end-of-input token: the token stream
  that the parser pulls from a lexer.
\<close>

fun tokenize :: "nat \<Rightarrow> Lexer \<Rightarrow> Token list result" where
  "tokenize 0 L = OutOfFuel"
| "tokenize (Suc n) L =
    (case nextToken L of
       None \<Rightarrow> Diverge
     | Some (t, L1) \<Rightarrow>
         if type t = T_End then Ok [t]
         else (case tokenize n L1 of Ok ts \<Rightarrow> Ok (t # ts) | r \<Rightarrow> r))"

text \<open>The two token kinds that only a two-character case label of the switch returns.\<close>

definition composed :: "token_type \<Rightarrow> bool" where
  "composed ty = (ty = T_LessEqual \<or> ty = T_GreaterEqual)"

lemma char_value_range: "- 128 \<le> char_value c \<and> char_value c < 128"
proof -
  have "(of_char c :: int) < 256" "(0::int) \<le> of_char c" by (simp_all add: of_char_def)
  then show ?thesis by (auto simp: char_value_def)
qed

lemma char_value_not_multichar: "char_value c \<noteq> multichar CHR ''<'' CHR ''=''" "char_value c \<noteq> multichar CHR ''>'' CHR ''=''"
  using char_value_range [of c] by (simp_all add: multichar_def)

lemma Lexer_identifier_type: "\<not> composed (type (fst (Lexer_identifier L)))"
  by (auto simp: composed_def Lexer_identifier_def Let_def makeToken_def Lexer_keywords_def split: option.splits if_splits)

lemma number_type: "\<not> composed (type (fst (number L)))"
  by (simp add: composed_def number_def Let_def makeToken_def)

lemma stringLiteral_type: "\<not> composed (type (fst (stringLiteral L)))"
  by (simp add: composed_def stringLiteral_def Let_def makeToken_def errorToken_def)

lemma scanToken_type:
  assumes "scanToken L = Some (t, L')"
  shows "\<not> composed (type t)"
proof -
  define L1 where "L1 = (skipWhitespace L)\<lparr>start := current (skipWhitespace L),
    line_start := Lexer.line (skipWhitespace L), column_start := Lexer.column (skipWhitespace L)\<rparr>"
  obtain c L2 where adv: "advance L1 = (c, L2)" by (cases "advance L1")
  have mk: "\<And>ty M. \<not> composed ty \<Longrightarrow> \<not> composed (type (makeToken ty M))"
    by (simp add: makeToken_def)
  have er: "\<And>m M. \<not> composed (type (errorToken m M))"
    by (simp add: errorToken_def composed_def)
  from assms show ?thesis
    unfolding scanToken_def Let_def L1_def [symmetric] adv prod.case
    using Lexer_identifier_type [of L2] number_type [of L2] stringLiteral_type [of L2]
      char_value_not_multichar [of c]
    by (auto simp: mk er composed_def makeToken_def errorToken_def split: if_splits prod.splits bool.splits)
qed

text \<open>
  Claim C7 says that on a semicolon directly after a newline \<^verbatim>\<open>nextToken\<close> retries,
  terminates and returns the token after the semicolon. The retry steps back onto the same
  semicolon (\<^verbatim>\<open>current--\<close>), so the call recurses forever: on the source text made of a
  newline and a semicolon \<^verbatim>\<open>nextToken\<close> never returns.
\<close>

theorem nextToken_newline_semicolon_never_returns:
  "nextToken (Lexer_new [CHR 0x0A, CHR '';'']) = None"
  by code_simp

text \<open>
  Claim C8: no call of \<^verbatim>\<open>nextToken\<close> returns a token of kind \<^verbatim>\<open>LessEqual\<close> or
  \<^verbatim>\<open>GreaterEqual\<close>, whatever the state of the lexer, and the source texts \<^verbatim>\<open><=\<close> and
  \<^verbatim>\<open>>=\<close> are a \<^verbatim>\<open>Less\<close> (a \<^verbatim>\<open>Greater\<close>) token followed by an \<^verbatim>\<open>Equal\<close> token.
\<close>

theorem nextToken_never_LessEqual_GreaterEqual:
  "(\<forall>L t L1. nextToken L = Some (t, L1) \<longrightarrow> type t \<noteq> T_LessEqual \<and> type t \<noteq> T_GreaterEqual)
   \<and> tokenize 3 (Lexer_new ''<='') =
       Ok [\<lparr>type = T_Less, lexeme = ''<'', line = 1, column = 1\<rparr>,
           \<lparr>type = T_Equal, lexeme = ''='', line = 1, column = 2\<rparr>,
           \<lparr>type = T_End, lexeme = [], line = 1, column = 3\<rparr>]
   \<and> tokenize 3 (Lexer_new ''>='') =
       Ok [\<lparr>type = T_Greater, lexeme = ''>'', line = 1, column = 1\<rparr>,
           \<lparr>type = T_Equal, lexeme = ''='', line = 1, column = 2\<rparr>,
           \<lparr>type = T_End, lexeme = [], line = 1, column = 3\<rparr>]"
proof (intro conjI allI impI)
  fix L t L1
  assume "nextToken L = Some (t, L1)"
  then have "\<not> composed (type t)"
    by (simp add: nextToken_scanToken scanToken_type)
  then show "type t \<noteq> T_LessEqual" "type t \<noteq> T_GreaterEqual"
    by (simp_all add: composed_def)
next
  show "tokenize 3 (Lexer_new ''<='') =
       Ok [\<lparr>type = T_Less, lexeme = ''<'', line = 1, column = 1\<rparr>,
           \<lparr>type = T_Equal, lexeme = ''='', line = 1, column = 2\<rparr>,
           \<lparr>type = T_End, lexeme = [], line = 1, column = 3\<rparr>]"
    by code_simp
next
  show "tokenize 3 (Lexer_new ''>='') =
       Ok [\<lparr>type = T_Greater, lexeme = ''>'', line = 1, column = 1\<rparr>,
           \<lparr>type = T_Equal, lexeme = ''='', line = 1, column = 2\<rparr>,
           \<lparr>type = T_End, lexeme = [], line = 1, column = 3\<rparr>]"
    by code_simp
qed

theorem nextToken_never_LessEqual_GreaterEqual_witness:
  "nextToken (Lexer_new ''<'') =
     Some (\<lparr>type = T_Less, lexeme = ''<'', line = 1, column = 1\<rparr>,
           \<lparr>source = ''<'', current = 1, start = 0, line = 1, column = 2,
             line_start = 1, column_start = 1\<rparr>)
   \<and> type \<lparr>type = T_Less, lexeme = ''<'', line = 1, column = 1\<rparr> \<noteq> T_LessEqual
   \<and> type \<lparr>type = T_Less, lexeme = ''<'', line = 1, column = 1\<rparr> \<noteq> T_GreaterEqual"
proof -
  have e: "nextToken (Lexer_new ''<'') =
     Some (\<lparr>type = T_Less, lexeme = ''<'', line = 1, column = 1\<rparr>,
           \<lparr>source = ''<'', current = 1, start = 0, line = 1, column = 2,
             line_start = 1, column_start = 1\<rparr>)"
    by code_simp
  from nextToken_never_LessEqual_GreaterEqual e show ?thesis
    by blast
qed

section \<open>Properties of the interpreter\<close>

text \<open>The bindings \<open>bs\<close> stored into an environment one after the other, the first one first.\<close>

primrec assign_all :: "(string \<times> cint) list \<Rightarrow> (string \<rightharpoonup> cint) \<Rightarrow> (string \<rightharpoonup> cint)" where
  "assign_all [] vars = vars"
| "assign_all (b # bs) vars = assign_all bs (vars(fst b \<mapsto> snd b))"


subsection \<open>Evaluating the model on concrete programs\<close>

text \<open>
  Rules for the simplifier to run lexer, parser and interpreter on a concrete program: the
  second argument of \<open>andThen\<close> and \<open>thenI\<close> is left alone until the first one is a
  result, and a recursion bound given as a numeral is unfolded one step at a time.
\<close>

lemma andThen_weak_cong: "m = m' \<Longrightarrow> andThen m f = andThen m' f" by simp
lemma thenI_weak_cong: "m = m' \<Longrightarrow> thenI m f = thenI m' f" by simp

lemmas eval_congs = let_weak_cong prod.case_cong_weak andThen_weak_cong thenI_weak_cong

lemmas interp_fuel =
  evalExpr.simps(2) [of "pred_numeral k" for k, folded numeral_eq_Suc]
  evalArgs.simps(2) [of "pred_numeral k" for k, folded numeral_eq_Suc]
  callFunction.simps(2) [of "pred_numeral k" for k, folded numeral_eq_Suc]
  execFunction.simps(2) [of "pred_numeral k" for k, folded numeral_eq_Suc]
  execBody.simps(2) [of "pred_numeral k" for k, folded numeral_eq_Suc]
  execStatement.simps(2) [of "pred_numeral k" for k, folded numeral_eq_Suc]
  execStatements.simps(2) [of "pred_numeral k" for k, folded numeral_eq_Suc]
  forLoop.simps(2) [of "pred_numeral k" for k, folded numeral_eq_Suc]
  whileLoop.simps(2) [of "pred_numeral k" for k, folded numeral_eq_Suc]
  forEachLoop.simps(2) [of "pred_numeral k" for k, folded numeral_eq_Suc]

lemmas interp_defs = Interpreter_new_def addFunction_def print_line_def evalArray_def applyOperator_def
  bindParams.simps to_string_def to_string_nat.simps

lemmas lexer_defs = nextToken_scanToken scanToken_def Lexer_new_def isAtEnd_def advance_def peek_def
  peekNext_def match_def substr_def makeToken_def errorToken_def isdigit_def isAlpha_def
  isAlphaNumeric_def Lexer_identifier_def number_def stringLiteral_def char_value_def multichar_def
  Lexer_keywords_def skipWhitespace.simps skipLineComment.simps identifier_loop.simps
  number_loop.simps stringLiteral_loop.simps numeral_2_eq_2 [symmetric]

lemmas parser_defs = Parser_new_def Parser_advance_def expect_def parseType_def parseParam_def
  isBinaryOperator_def parseFunction_def parseTopLevel_def Parser_isAtEnd_def stoi_def isspace_def
  digits_value_def

lemmas parser_fuel =
  parseExpression.simps(2) [of "pred_numeral k" for k, folded numeral_eq_Suc]
  parseBinaryExpression.simps(2) [of "pred_numeral k" for k, folded numeral_eq_Suc]
  parseSuffixes.simps(2) [of "pred_numeral k" for k, folded numeral_eq_Suc]
  parseOperators.simps(2) [of "pred_numeral k" for k, folded numeral_eq_Suc]
  parseExpressionList.simps(2) [of "pred_numeral k" for k, folded numeral_eq_Suc]
  parseBlock.simps(2) [of "pred_numeral k" for k, folded numeral_eq_Suc]
  parseBlock_loop.simps(2) [of "pred_numeral k" for k, folded numeral_eq_Suc]
  parseStatement.simps(2) [of "pred_numeral k" for k, folded numeral_eq_Suc]
  parseParams.simps(2) [of "pred_numeral k" for k, folded numeral_eq_Suc]
  main_loop.simps(2) [of "pred_numeral k" for k, folded numeral_eq_Suc]

lemmas driver_defs = main_def main_try_def


subsection \<open>Binding the parameters\<close>

lemma bindParams_from:
  "bindParams params args i vars =
    (if length params \<le> i \<or> length params \<le> length args
     then Ok (assign_all (drop i (zip (map fst params) args)) vars)
     else Crash)"
proof (induction params args i vars rule: bindParams.induct)
  case (1 params args i vars)
  show ?case
  proof (cases "i < length params")
    case False
    then show ?thesis
      by (subst bindParams.simps) simp
  next
    case True
    show ?thesis
    proof (cases "i < length args")
      case False
      with True show ?thesis
        by (subst bindParams.simps) simp
    next
      case a: True
      from True a have d: "drop i (zip (map fst params) args) =
          (fst (params ! i), args ! i) # drop (Suc i) (zip (map fst params) args)"
        by (simp add: Cons_nth_drop_Suc [symmetric])
      note ih = 1 [OF True a]
      have "bindParams params args i vars =
          bindParams params args (i + 1) (vars(fst (params ! i) \<mapsto> args ! i))"
        using True a by (subst bindParams.simps) simp
      also note ih
      finally show ?thesis
        using True a by (simp add: d)
    qed
  qed
qed


lemma zip_take_length: "zip xs (take (length xs) ys) = zip xs ys"
proof (induction xs arbitrary: ys)
  case Nil
  show ?case by simp
next
  case (Cons x xs)
  show ?case
    by (cases ys) (simp_all add: Cons)
qed


text \<open>
  Claim C9: the call reads the argument list at the positions of the parameters only. With at
  least as many arguments as parameters every read is in range: the binding succeeds, it is
  the one of the first \<open>length params\<close> arguments, and the call is the same as the call
  with the surplus arguments dropped. With fewer arguments the binding reads the vector out
  of range, which nothing checks.
\<close>

theorem callFunction_binds_parameters:
  assumes "functions S name = Some (FunctionDecl l c fname params rt body)"
  shows "(length params \<le> length args \<longrightarrow>
            bindParams params args 0 (variables S) =
              Ok (assign_all (zip (map fst params) (take (length params) args)) (variables S))
            \<and> callFunction (Suc (Suc n)) name args S =
                callFunction (Suc (Suc n)) name (take (length params) args) S)
       \<and> (length args < length params \<longrightarrow>
            bindParams params args 0 (variables S) = Crash
            \<and> callFunction (Suc (Suc n)) name args S = (Crash, S))"
proof -
  have z: "zip (map fst params) (take (length params) args) = zip (map fst params) args"
    using zip_take_length [of "map fst params" args] by simp
  show ?thesis
    using assms by (auto simp: bindParams_from z Let_def)
qed


theorem callFunction_binds_parameters_witness:
  "functions \<lparr>variables = Map.empty,
      functions = [''f'' \<mapsto> FunctionDecl 1 10 ''f'' [(''a'', ''int''), (''b'', ''int'')] ''int''
                     [ReturnStmt 1 30 (Identifier 1 37 ''b'')]],
      cout = []\<rparr> ''f''
     = Some (FunctionDecl 1 10 ''f'' [(''a'', ''int''), (''b'', ''int'')] ''int''
               [ReturnStmt 1 30 (Identifier 1 37 ''b'')])
   \<and> callFunction 4 ''f'' [7, 8, 9]
        \<lparr>variables = Map.empty,
         functions = [''f'' \<mapsto> FunctionDecl 1 10 ''f'' [(''a'', ''int''), (''b'', ''int'')] ''int''
                        [ReturnStmt 1 30 (Identifier 1 37 ''b'')]],
         cout = []\<rparr>
      = callFunction 4 ''f'' [7, 8]
        \<lparr>variables = Map.empty,
         functions = [''f'' \<mapsto> FunctionDecl 1 10 ''f'' [(''a'', ''int''), (''b'', ''int'')] ''int''
                        [ReturnStmt 1 30 (Identifier 1 37 ''b'')]],
         cout = []\<rparr>
   \<and> callFunction 4 ''f'' [7]
        \<lparr>variables = Map.empty,
         functions = [''f'' \<mapsto> FunctionDecl 1 10 ''f'' [(''a'', ''int''), (''b'', ''int'')] ''int''
                        [ReturnStmt 1 30 (Identifier 1 37 ''b'')]],
         cout = []\<rparr>
      = (Crash,
        \<lparr>variables = Map.empty,
         functions = [''f'' \<mapsto> FunctionDecl 1 10 ''f'' [(''a'', ''int''), (''b'', ''int'')] ''int''
                        [ReturnStmt 1 30 (Identifier 1 37 ''b'')]],
         cout = []\<rparr>)"
proof -
  let ?F = "FunctionDecl 1 10 ''f'' [(''a'', ''int''), (''b'', ''int'')] ''int''
               [ReturnStmt 1 30 (Identifier 1 37 ''b'')]"
  let ?S = "\<lparr>variables = Map.empty, functions = [''f'' \<mapsto> ?F], cout = []\<rparr>"
  have f: "functions ?S ''f'' = Some ?F" by simp
  have s4: "(4::nat) = Suc (Suc 2)" by simp
  from callFunction_binds_parameters [OF f, of "[7, 8, 9]" 2]
       callFunction_binds_parameters [OF f, of "[7]" 2]
  show ?thesis
    unfolding s4 [symmetric] by simp
qed

subsection \<open>Binary expressions\<close>

lemma sint_sdiv:
  fixes a b :: cint
  assumes "b \<noteq> 0" "\<not> (sint a = - 2147483648 \<and> sint b = - 1)"
  shows "sint (word_of_int (sint a sdiv sint b) :: cint) = sgn (sint a) * sgn (sint b) * (\<bar>sint a\<bar> div \<bar>sint b\<bar>)"
proof -
  have ra: "- 2147483648 \<le> sint a" "sint a < 2147483648"
    using sint_ge [of a] sint_lt [of a] by simp_all
  from assms(1) have nz: "sint b \<noteq> 0" by (simp add: signed_eq_0_iff)
  then have b1: "1 \<le> \<bar>sint b\<bar>" by simp
  have q: "sint a sdiv sint b = sgn (sint a) * sgn (sint b) * (\<bar>sint a\<bar> div \<bar>sint b\<bar>)"
    by (simp add: signed_divide_int_def)
  have "- 2147483648 \<le> sint a sdiv sint b \<and> sint a sdiv sint b < 2147483648"
  proof (cases "\<bar>sint b\<bar> = 1")
    case True
    then have "sint b = 1 \<or> sint b = - 1" by auto
    with assms(2) ra show ?thesis
      by (auto simp: q sgn_if)
  next
    case False
    with b1 have b2: "2 \<le> \<bar>sint b\<bar>" by simp
    have "\<bar>sint a\<bar> div \<bar>sint b\<bar> \<le> \<bar>sint a\<bar> div 2"
      by (rule zdiv_mono2) (use b2 in simp_all)
    with ra have "\<bar>sint a\<bar> div \<bar>sint b\<bar> < 2147483648" by simp
    moreover have "0 \<le> \<bar>sint a\<bar> div \<bar>sint b\<bar>"
      using b1 by (intro pos_imp_zdiv_nonneg_iff [THEN iffD2]) simp_all
    ultimately show ?thesis
      by (auto simp: q sgn_if)
  qed
  then have "sint (word_of_int (sint a sdiv sint b) :: cint) = sint a sdiv sint b"
    by (simp add: sint_sbintrunc' signed_take_bit_int_eq_self)
  with q show ?thesis by simp
qed


text \<open>
  Claim C5: a binary expression evaluates its left operand, then its right operand in the
  state the left one leaves, then applies the operator. The four arithmetic operators are
  the machine's (division truncates towards zero and is not checked for zero), the four
  comparisons give 1 or 0, and every other operator, \<^verbatim>\<open>==\<close> and \<^verbatim>\<open>!=\<close> among them, is
  the fault "Unsupported operator". A fault of the left operand is the fault of the
  expression, in the state of the left operand: the right operand is not evaluated.
\<close>

theorem evalExpr_BinaryExpr:
  "(\<forall>lv S1 rv S2. evalExpr n left S = (Ok lv, S1) \<and> evalExpr n right S1 = (Ok rv, S2) \<longrightarrow>
      (\<exists>res. evalExpr (Suc n) (BinaryExpr l c left op right) S = (res, S2)
        \<and> (op = ''+'' \<longrightarrow> res = Ok (lv + rv))
        \<and> (op = ''-'' \<longrightarrow> res = Ok (lv - rv))
        \<and> (op = ''*'' \<longrightarrow> res = Ok (lv * rv))
        \<and> (op = ''/'' \<and> rv \<noteq> 0 \<and> \<not> (sint lv = - 2147483648 \<and> sint rv = - 1) \<longrightarrow>
              (\<exists>q. res = Ok q \<and> sint q = sgn (sint lv) * sgn (sint rv) * (\<bar>sint lv\<bar> div \<bar>sint rv\<bar>)))
        \<and> (op = ''/'' \<and> rv = 0 \<longrightarrow> res = Crash)
        \<and> (op = ''<'' \<longrightarrow> res = Ok (if sint lv < sint rv then 1 else 0))
        \<and> (op = ''<='' \<longrightarrow> res = Ok (if sint lv \<le> sint rv then 1 else 0))
        \<and> (op = ''>'' \<longrightarrow> res = Ok (if sint lv > sint rv then 1 else 0))
        \<and> (op = ''>='' \<longrightarrow> res = Ok (if sint lv \<ge> sint rv then 1 else 0))
        \<and> (op \<notin> {''+'', ''-'', ''*'', ''/'', ''<'', ''<='', ''>'', ''>=''} \<longrightarrow>
              res = Throw (''Unsupported operator: '' @ op))))
   \<and> (\<forall>e S1. evalExpr n left S = (Throw e, S1) \<longrightarrow>
        evalExpr (Suc n) (BinaryExpr l c left op right) S = (Throw e, S1))"
proof (intro conjI allI impI)
  fix lv S1 rv S2
  assume a: "evalExpr n left S = (Ok lv, S1) \<and> evalExpr n right S1 = (Ok rv, S2)"
  then have e: "evalExpr (Suc n) (BinaryExpr l c left op right) S = (applyOperator op lv rv, S2)"
    by simp
  have d: "op = ''/'' \<Longrightarrow> rv \<noteq> 0 \<Longrightarrow> \<not> (sint lv = - 2147483648 \<and> sint rv = - 1) \<Longrightarrow>
      \<exists>q. applyOperator op lv rv = Ok q \<and> sint q = sgn (sint lv) * sgn (sint rv) * (\<bar>sint lv\<bar> div \<bar>sint rv\<bar>)"
    using sint_sdiv [of rv lv] by (simp add: applyOperator_def)
  show "\<exists>res. evalExpr (Suc n) (BinaryExpr l c left op right) S = (res, S2)
        \<and> (op = ''+'' \<longrightarrow> res = Ok (lv + rv))
        \<and> (op = ''-'' \<longrightarrow> res = Ok (lv - rv))
        \<and> (op = ''*'' \<longrightarrow> res = Ok (lv * rv))
        \<and> (op = ''/'' \<and> rv \<noteq> 0 \<and> \<not> (sint lv = - 2147483648 \<and> sint rv = - 1) \<longrightarrow>
              (\<exists>q. res = Ok q \<and> sint q = sgn (sint lv) * sgn (sint rv) * (\<bar>sint lv\<bar> div \<bar>sint rv\<bar>)))
        \<and> (op = ''/'' \<and> rv = 0 \<longrightarrow> res = Crash)
        \<and> (op = ''<'' \<longrightarrow> res = Ok (if sint lv < sint rv then 1 else 0))
        \<and> (op = ''<='' \<longrightarrow> res = Ok (if sint lv \<le> sint rv then 1 else 0))
        \<and> (op = ''>'' \<longrightarrow> res = Ok (if sint lv > sint rv then 1 else 0))
        \<and> (op = ''>='' \<longrightarrow> res = Ok (if sint lv \<ge> sint rv then 1 else 0))
        \<and> (op \<notin> {''+'', ''-'', ''*'', ''/'', ''<'', ''<='', ''>'', ''>=''} \<longrightarrow>
              res = Throw (''Unsupported operator: '' @ op))"
    unfolding e
    apply (rule exI [of _ "applyOperator op lv rv"])
    apply (intro conjI impI)
    subgoal by simp
    subgoal by (simp add: applyOperator_def)
    subgoal by (simp add: applyOperator_def)
    subgoal by (simp add: applyOperator_def)
    subgoal using d by blast
    subgoal by (simp add: applyOperator_def)
    subgoal by (simp add: applyOperator_def)
    subgoal by (simp add: applyOperator_def)
    subgoal by (simp add: applyOperator_def)
    subgoal by (simp add: applyOperator_def)
    subgoal by (simp add: applyOperator_def)
    done
next
  fix e S1
  assume "evalExpr n left S = (Throw e, S1)"
  then show "evalExpr (Suc n) (BinaryExpr l c left op right) S = (Throw e, S1)"
    by simp
qed

theorem evalExpr_BinaryExpr_witness:
  "evalExpr 1 (NumberLiteral 1 1 (- 7)) Interpreter_new = (Ok (- 7), Interpreter_new)
   \<and> evalExpr 1 (NumberLiteral 1 5 2) Interpreter_new = (Ok 2, Interpreter_new)
   \<and> (\<exists>q. evalExpr (Suc 1) (BinaryExpr 1 3 (NumberLiteral 1 1 (- 7)) ''/'' (NumberLiteral 1 5 2))
              Interpreter_new = (Ok q, Interpreter_new) \<and> sint q = - 3)
   \<and> evalExpr (Suc 1) (BinaryExpr 1 3 (NumberLiteral 1 1 (- 7)) ''=='' (NumberLiteral 1 5 2))
        Interpreter_new = (Throw ''Unsupported operator: =='', Interpreter_new)"
proof -
  have l: "evalExpr 1 (NumberLiteral 1 1 (- 7)) Interpreter_new = (Ok (- 7), Interpreter_new)"
    by simp
  have r: "evalExpr 1 (NumberLiteral 1 5 2) Interpreter_new = (Ok 2, Interpreter_new)"
    by simp
  have s: "sint (- 7 :: cint) = - 7" "sint (2 :: cint) = 2"
    by simp_all
  from evalExpr_BinaryExpr [of 1 "NumberLiteral 1 1 (- 7)" Interpreter_new "NumberLiteral 1 5 2" 1 3 "''/''"]
       evalExpr_BinaryExpr [of 1 "NumberLiteral 1 1 (- 7)" Interpreter_new "NumberLiteral 1 5 2" 1 3 "''==''"]
       l r
  show ?thesis
    by (auto simp: s)
qed


subsection \<open>The environment across a call\<close>

lemma execFunction_restores:
  assumes "execFunction n func args S = (Ok v, S')"
  shows "variables S' = variables S"
proof (cases n)
  case 0
  with assms show ?thesis by simp
next
  case (Suc m)
  show ?thesis
  proof (cases func)
    case (FunctionDecl l c name params rt body)
    show ?thesis
    proof (cases "bindParams params args 0 (variables S)")
      case (Ok vars)
      obtain r S1 where b: "execBody m body (S\<lparr>variables := vars\<rparr>) = (r, S1)"
        by (cases "execBody m body (S\<lparr>variables := vars\<rparr>)")
      from assms show ?thesis
        by (cases r) (auto simp: Suc FunctionDecl Ok b Let_def)
    qed (use assms in \<open>simp_all add: Suc FunctionDecl Let_def\<close>)
  qed (use assms in \<open>simp_all add: Suc\<close>)
qed


text \<open>
  Claim C2: when a call returns a value, the environment after the call is the environment
  before it: a variable unbound before the call is unbound after it, and a variable bound
  before the call has its old value, whatever the body assigned.
\<close>

theorem callFunction_restores_environment:
  assumes "callFunction n name args S = (Ok v, S')"
  shows "variables S' = variables S
    \<and> (\<forall>x. variables S x = None \<longrightarrow> variables S' x = None)
    \<and> (\<forall>x w. variables S x = Some w \<longrightarrow> variables S' x = Some w)"
proof -
  have "variables S' = variables S"
  proof (cases n)
    case 0
    with assms show ?thesis by simp
  next
    case (Suc m)
    with assms show ?thesis
      by (cases "functions S name") (auto dest: execFunction_restores)
  qed
  then show ?thesis by simp
qed


theorem callFunction_restores_environment_witness:
  "callFunction 8 ''f'' [2]
      \<lparr>variables = [''g'' \<mapsto> 1],
       functions = [''f'' \<mapsto> FunctionDecl 1 10 ''f'' [(''p'', ''int'')] ''int''
          [AssignStmt 1 1 ''g'' (NumberLiteral 1 1 5),
           VarDecl 1 1 ''y'' ''int'' (NumberLiteral 1 1 3),
           ReturnStmt 1 1 (BinaryExpr 1 1 (Identifier 1 1 ''g'') ''+''
             (BinaryExpr 1 1 (Identifier 1 1 ''y'') ''+'' (Identifier 1 1 ''p'')))]],
       cout = []\<rparr>
    = (Ok 10,
      \<lparr>variables = [''g'' \<mapsto> 1],
       functions = [''f'' \<mapsto> FunctionDecl 1 10 ''f'' [(''p'', ''int'')] ''int''
          [AssignStmt 1 1 ''g'' (NumberLiteral 1 1 5),
           VarDecl 1 1 ''y'' ''int'' (NumberLiteral 1 1 3),
           ReturnStmt 1 1 (BinaryExpr 1 1 (Identifier 1 1 ''g'') ''+''
             (BinaryExpr 1 1 (Identifier 1 1 ''y'') ''+'' (Identifier 1 1 ''p'')))]],
       cout = []\<rparr>)"
proof -
  let ?F = "FunctionDecl 1 10 ''f'' [(''p'', ''int'')] ''int''
          [AssignStmt 1 1 ''g'' (NumberLiteral 1 1 5),
           VarDecl 1 1 ''y'' ''int'' (NumberLiteral 1 1 3),
           ReturnStmt 1 1 (BinaryExpr 1 1 (Identifier 1 1 ''g'') ''+''
             (BinaryExpr 1 1 (Identifier 1 1 ''y'') ''+'' (Identifier 1 1 ''p'')))]"
  let ?S = "\<lparr>variables = [''g'' \<mapsto> 1], functions = [''f'' \<mapsto> ?F], cout = []\<rparr>"
  have e: "callFunction 8 ''f'' [2] ?S = (Ok 10, ?S)"
    by (simp add: interp_defs interp_fuel Let_def split del: if_split cong: eval_congs)
  from callFunction_restores_environment [OF e] e show ?thesis
    by simp
qed


text \<open>
  Claim C10: a function invocation ends in a fault exactly when the body does (after the
  parameters are bound), and then the state of the invocation is the state in which the
  body faulted: the saved environment is not put back. In the witness the parameter \<open>p\<close>
  and the assignment to \<open>g\<close> are still there after the fault.
\<close>

theorem execFunction_fault_keeps_environment:
  "execFunction (Suc n) (FunctionDecl l c name params rt body) args S = (Throw msg, S')
    \<longleftrightarrow> (\<exists>vars. bindParams params args 0 (variables S) = Ok vars
          \<and> execBody n body (S\<lparr>variables := vars\<rparr>) = (Throw msg, S'))"
proof (cases "bindParams params args 0 (variables S)")
  case (Ok vars)
  obtain r S1 where b: "execBody n body (S\<lparr>variables := vars\<rparr>) = (r, S1)"
    by (cases "execBody n body (S\<lparr>variables := vars\<rparr>)")
  show ?thesis
    by (cases r) (auto simp: Ok b Let_def)
qed (simp_all add: Let_def)

theorem execFunction_fault_keeps_environment_witness:
  "execFunction (Suc 3)
      (FunctionDecl 1 10 ''f'' [(''p'', ''int'')] ''int''
         [AssignStmt 1 1 ''g'' (NumberLiteral 1 1 5), ExpressionStmt 1 1 (Identifier 1 1 ''u'')])
      [2] \<lparr>variables = [''g'' \<mapsto> 1], functions = Map.empty, cout = []\<rparr>
    = (Throw ''Undefined variable: u'',
       \<lparr>variables = [''g'' \<mapsto> 1, ''p'' \<mapsto> 2, ''g'' \<mapsto> 5], functions = Map.empty, cout = []\<rparr>)"
proof -
  have b: "bindParams [(''p'', ''int'')] [2] 0 [''g'' \<mapsto> 1] = Ok [''g'' \<mapsto> 1, ''p'' \<mapsto> 2]"
    by (simp add: bindParams.simps)
  have e: "execBody 3 [AssignStmt 1 1 ''g'' (NumberLiteral 1 1 5), ExpressionStmt 1 1 (Identifier 1 1 ''u'')]
      (\<lparr>variables = [''g'' \<mapsto> 1], functions = Map.empty, cout = []\<rparr>\<lparr>variables := [''g'' \<mapsto> 1, ''p'' \<mapsto> (2::cint)]\<rparr>)
    = (Throw ''Undefined variable: u'',
       \<lparr>variables = [''g'' \<mapsto> 1, ''p'' \<mapsto> 2, ''g'' \<mapsto> 5], functions = Map.empty, cout = []\<rparr>)"
    by (simp add: interp_defs interp_fuel Let_def split del: if_split cong: eval_congs)
  show ?thesis
    by (rule execFunction_fault_keeps_environment [THEN iffD2]) (use b e in auto)
qed

section \<open>Properties of the parser\<close>

text \<open>
  The node that \<^verbatim>\<open>parseBinaryExpression\<close> builds for an operand that is one token, an
  identifier or a number.
\<close>

definition primary :: "Token \<Rightarrow> ASTNode option" where
  "primary t =
    (if type t = T_Identifier then Some (Identifier (line t) (column t) (lexeme t))
     else if type t = T_Number then
       (case stoi (lexeme t) of Ok v \<Rightarrow> Some (NumberLiteral (line t) (column t) v) | _ \<Rightarrow> None)
     else None)"


text \<open>The source text of a function whose only statement is \<^verbatim>\<open>f(7);\<close>.\<close>

definition block_call_program :: string where
  "block_call_program = ''function main() { f(7); }''"

lemma block_call_program_length: "length block_call_program = 25"
  by (simp add: block_call_program_def)

lemmas block_call_program_text = block_call_program_length
  arg_cong2 [where f = nth, OF block_call_program_def refl]
  arg_cong [where f = "drop k" for k, OF block_call_program_def]
  arg_cong [where f = "take k" for k, OF block_call_program_def]


text \<open>The source text of a function that returns a chain of two \<^verbatim>\<open><=\<close>.\<close>

definition less_equal_chain_program :: string where
  "less_equal_chain_program = ''function main() { return 1 <= 2 <= 3; }''"

lemma less_equal_chain_program_length: "length less_equal_chain_program = 39"
  by (simp add: less_equal_chain_program_def)

lemmas less_equal_chain_program_text = less_equal_chain_program_length
  arg_cong2 [where f = nth, OF less_equal_chain_program_def refl]
  arg_cong [where f = "drop k" for k, OF less_equal_chain_program_def]
  arg_cong [where f = "take k" for k, OF less_equal_chain_program_def]


subsection \<open>Operator chains\<close>

lemma isBinaryOperator_simps:
  assumes "isBinaryOperator ty"
  shows "ty \<noteq> T_LParen" "ty \<noteq> T_LBracket" "ty \<noteq> T_Equal" "ty \<noteq> T_PlusPlus" "ty \<noteq> T_MinusMinus"
  using assms by (auto simp: isBinaryOperator_def)

lemma parseBinaryExpression_primary:
  assumes "primary (currentToken P) = Some A"
    and "nextToken (lexer P) = Some (t, L)"
    and "type t \<noteq> T_LParen" "type t \<noteq> T_LBracket"
  shows "parseBinaryExpression (Suc (Suc n)) P = parseOperators (Suc n) A (P\<lparr>lexer := L, currentToken := t\<rparr>)"
proof (cases "type (currentToken P) = T_Identifier")
  case True
  with assms show ?thesis
    by (simp add: primary_def Parser_advance_def Let_def)
next
  case False
  with assms(1) have n: "type (currentToken P) = T_Number"
    by (simp add: primary_def split: if_splits)
  with assms(1) obtain v where v: "stoi (lexeme (currentToken P)) = Ok v"
      "A = NumberLiteral (line (currentToken P)) (column (currentToken P)) v"
    by (auto simp: primary_def split: result.splits)
  from n v assms(2) show ?thesis
    by (simp add: Parser_advance_def Let_def)
qed

lemma parseOperators_stop:
  "\<not> isBinaryOperator (type (currentToken P)) \<Longrightarrow> parseOperators (Suc n) left P = Ok (left, P)"
  by (simp add: Let_def)

lemma parseOperators_step:
  assumes "isBinaryOperator (type (currentToken P))" "nextToken (lexer P) = Some (t, L)"
    and "parseExpression n (P\<lparr>lexer := L, currentToken := t\<rparr>) = Ok (right, P2)"
  shows "parseOperators (Suc n) left P =
    parseOperators n (BinaryExpr (line (currentToken P)) (column (currentToken P)) left
      (lexeme (currentToken P)) right) P2"
  using assms by (simp add: Let_def Parser_advance_def)

lemma parseExpression_plain:
  assumes "parseBinaryExpression n P = Ok (e, P1)"
    and "type (currentToken P1) \<noteq> T_Equal" "type (currentToken P1) \<noteq> T_PlusPlus"
      "type (currentToken P1) \<noteq> T_MinusMinus"
  shows "parseExpression (Suc n) P = Ok (e, P1)"
  using assms by simp


text \<open>
  The parser groups a chain of operators to the right, with one tier of precedence. When it
  stands on an operand \<open>a\<close> and the lexer then delivers an operator, an operand \<open>b\<close>, a
  second operator, an operand \<open>c\<close> and a token that ends the expression, the tree is
  \<open>a op1 (b op2 c)\<close>, for any recursion bound from 9 on. The operands are single tokens,
  identifiers or numbers. Of the ten kinds that \<^verbatim>\<open>isBinaryOperator\<close> accepts the lexer
  delivers seven, those of \<^verbatim>\<open>+ - * / < > ==\<close>; for \<^verbatim>\<open>LessEqual\<close>, \<^verbatim>\<open>GreaterEqual\<close> and
  \<^verbatim>\<open>BangEqual\<close> no lexer state meets the hypothesis on \<^verbatim>\<open>nextToken\<close>, and the lemma says
  nothing about them.
\<close>

lemma parseExpression_chain:
  assumes a: "primary (currentToken P) = Some A"
    and t1: "nextToken (lexer P) = Some (t1, L1)" "isBinaryOperator (type t1)"
    and b: "nextToken L1 = Some (tb, L2)" "primary tb = Some B"
    and t2: "nextToken L2 = Some (t2, L3)" "isBinaryOperator (type t2)"
    and c: "nextToken L3 = Some (tc, L4)" "primary tc = Some C"
    and e: "nextToken L4 = Some (te, L5)" "\<not> isBinaryOperator (type te)"
      "type te \<notin> {T_Equal, T_PlusPlus, T_MinusMinus, T_LParen, T_LBracket}"
  shows "parseExpression (n + 9) P =
    Ok (BinaryExpr (line t1) (column t1) A (lexeme t1)
          (BinaryExpr (line t2) (column t2) B (lexeme t2) C),
        P\<lparr>lexer := L5, currentToken := te\<rparr>)"
proof -
  let ?P1 = "P\<lparr>lexer := L1, currentToken := t1\<rparr>"
  let ?P2 = "P\<lparr>lexer := L2, currentToken := tb\<rparr>"
  let ?P3 = "P\<lparr>lexer := L3, currentToken := t2\<rparr>"
  let ?P4 = "P\<lparr>lexer := L4, currentToken := tc\<rparr>"
  let ?P5 = "P\<lparr>lexer := L5, currentToken := te\<rparr>"
  let ?BC = "BinaryExpr (line t2) (column t2) B (lexeme t2) C"
  have c1: "parseBinaryExpression (Suc (Suc n)) ?P4 = Ok (C, ?P5)"
    using parseBinaryExpression_primary [of ?P4 C te L5 n] c e
    by (simp add: parseOperators_stop del: parseOperators.simps parseBinaryExpression.simps)
  have c2: "parseExpression (Suc (Suc (Suc n))) ?P4 = Ok (C, ?P5)"
    by (rule parseExpression_plain [OF c1]) (use e in simp_all)
  have b1: "parseBinaryExpression (Suc (Suc (Suc (Suc (Suc n))))) ?P2 =
      parseOperators (Suc (Suc (Suc (Suc n)))) B ?P3"
    using parseBinaryExpression_primary [of ?P2 B t2 L3 "Suc (Suc (Suc n))"] b t2
      isBinaryOperator_simps [OF t2(2)]
    by (simp del: parseOperators.simps parseBinaryExpression.simps)
  have b2: "parseOperators (Suc (Suc (Suc (Suc n)))) B ?P3 = parseOperators (Suc (Suc (Suc n))) ?BC ?P5"
    using parseOperators_step [of ?P3 tc L4 "Suc (Suc (Suc n))" C ?P5 B] t2 c c2
    by (simp del: parseOperators.simps parseExpression.simps)
  have b3: "parseOperators (Suc (Suc (Suc n))) ?BC ?P5 = Ok (?BC, ?P5)"
    using e by (simp add: parseOperators_stop del: parseOperators.simps)
  have b4: "parseExpression (Suc (Suc (Suc (Suc (Suc (Suc n)))))) ?P2 = Ok (?BC, ?P5)"
    by (rule parseExpression_plain) (use b1 b2 b3 e in simp_all)
  have a1: "parseBinaryExpression (Suc (Suc (Suc (Suc (Suc (Suc (Suc (Suc n)))))))) P =
      parseOperators (Suc (Suc (Suc (Suc (Suc (Suc (Suc n))))))) A ?P1"
    using parseBinaryExpression_primary [of P A t1 L1 "Suc (Suc (Suc (Suc (Suc (Suc n)))))"] a t1
      isBinaryOperator_simps [OF t1(2)]
    by (simp del: parseOperators.simps parseBinaryExpression.simps)
  have a2: "parseOperators (Suc (Suc (Suc (Suc (Suc (Suc (Suc n))))))) A ?P1 =
      parseOperators (Suc (Suc (Suc (Suc (Suc (Suc n))))))
        (BinaryExpr (line t1) (column t1) A (lexeme t1) ?BC) ?P5"
    using parseOperators_step [of ?P1 tb L2 "Suc (Suc (Suc (Suc (Suc (Suc n)))))" ?BC ?P5 A] t1 b b4
    by (simp del: parseOperators.simps parseExpression.simps)
  have a3: "parseOperators (Suc (Suc (Suc (Suc (Suc (Suc n))))))
        (BinaryExpr (line t1) (column t1) A (lexeme t1) ?BC) ?P5 =
      Ok (BinaryExpr (line t1) (column t1) A (lexeme t1) ?BC, ?P5)"
    using e by (simp add: parseOperators_stop del: parseOperators.simps)
  have "parseExpression (Suc (Suc (Suc (Suc (Suc (Suc (Suc (Suc (Suc n))))))))) P =
      Ok (BinaryExpr (line t1) (column t1) A (lexeme t1) ?BC, ?P5)"
    by (rule parseExpression_plain) (use a1 a2 a3 e in simp_all)
  moreover have "n + 9 = Suc (Suc (Suc (Suc (Suc (Suc (Suc (Suc (Suc n))))))))"
    by simp
  ultimately show ?thesis
    by (simp only:)
qed

text \<open>
  Claim C3 says that a chain \<open>a op1 b op2 c\<close> is parsed as \<open>a op1 (b op2 c)\<close> for every
  operator of the grammar, which has \<^verbatim>\<open>+ - * / < > == != <= >=\<close>, and that \<^verbatim>\<open>1 - 2 - 3\<close> is
  parsed as \<^verbatim>\<open>1 - (2 - 3)\<close> and evaluates to 2. The parser is written for all ten:
  \<^verbatim>\<open>isBinaryOperator\<close> accepts the ten token kinds and \<^verbatim>\<open>parseBinaryExpression\<close> reads each
  right operand with \<^verbatim>\<open>parseExpression\<close>. The example of the claim holds, and \<^verbatim>\<open>1 < 2 < 3\<close>
  is parsed to the right-nested tree as well. The lexer, however, never delivers three of
  the kinds: the case labels \<^verbatim>\<open>'<='\<close> and \<^verbatim>\<open>'>='\<close> of its switch on one character match no
  character, and the switch has no case for \<^verbatim>\<open>!\<close>. The text \<^verbatim>\<open>1 <= 2 <= 3\<close> reaches the
  parser as \<^verbatim>\<open>1\<close>, \<^verbatim>\<open><\<close>, \<^verbatim>\<open>=\<close>, ...: the right operand of \<^verbatim>\<open><\<close> starts with the token
  \<^verbatim>\<open>=\<close>, and the parser throws instead of building \<^verbatim>\<open>1 <= (2 <= 3)\<close>; the same for
  \<^verbatim>\<open>>=\<close>. In \<^verbatim>\<open>1 != 2 != 3\<close> the expression ends after \<^verbatim>\<open>1\<close>, on the token that reports
  the unexpected character. A program that returns \<^verbatim>\<open>1 <= 2 <= 3\<close> ends with the parser's
  error and the exit status 1.
\<close>

theorem parseExpression_LessEqual_chain_throws:
  "andThen (Parser_new (Lexer_new ''1 <= 2 <= 3'')) (parseExpression 9) =
     Throw (''Unsupported expression: Equal '' @ [CHR 0x27] @ ''='' @ [CHR 0x27])
   \<and> andThen (Parser_new (Lexer_new ''1 >= 2 >= 3'')) (parseExpression 9) =
     Throw (''Unsupported expression: Equal '' @ [CHR 0x27] @ ''='' @ [CHR 0x27])
   \<and> andThen (Parser_new (Lexer_new ''1 != 2 != 3'')) (parseExpression 9) =
     Ok (NumberLiteral 1 1 1,
         \<lparr>lexer = \<lparr>source = ''1 != 2 != 3'', current = 3, start = 2, line = 1, column = 4,
                    line_start = 1, column_start = 3\<rparr>,
          currentToken = \<lparr>type = T_Unexpected, lexeme = ''Unexpected character'', line = 1,
                           column = 3\<rparr>\<rparr>)
   \<and> andThen (Parser_new (Lexer_new ''1 < 2 < 3'')) (parseExpression 9) =
     Ok (BinaryExpr 1 3 (NumberLiteral 1 1 1) ''<''
           (BinaryExpr 1 7 (NumberLiteral 1 5 2) ''<'' (NumberLiteral 1 9 3)),
         \<lparr>lexer = \<lparr>source = ''1 < 2 < 3'', current = 9, start = 9, line = 1, column = 10,
                    line_start = 1, column_start = 10\<rparr>,
          currentToken = \<lparr>type = T_End, lexeme = [], line = 1, column = 10\<rparr>\<rparr>)
   \<and> andThen (Parser_new (Lexer_new ''1 - 2 - 3'')) (parseExpression 9) =
     Ok (BinaryExpr 1 3 (NumberLiteral 1 1 1) ''-''
           (BinaryExpr 1 7 (NumberLiteral 1 5 2) ''-'' (NumberLiteral 1 9 3)),
         \<lparr>lexer = \<lparr>source = ''1 - 2 - 3'', current = 9, start = 9, line = 1, column = 10,
                    line_start = 1, column_start = 10\<rparr>,
          currentToken = \<lparr>type = T_End, lexeme = [], line = 1, column = 10\<rparr>\<rparr>)
   \<and> evalExpr 3
       (BinaryExpr 1 3 (NumberLiteral 1 1 1) ''-''
          (BinaryExpr 1 7 (NumberLiteral 1 5 2) ''-'' (NumberLiteral 1 9 3)))
       Interpreter_new = (Ok 2, Interpreter_new)
   \<and> main 20 less_equal_chain_program =
     (Ok 1, [],
      ''Error: Unsupported expression: Equal '' @ [CHR 0x27] @ ''='' @ [CHR 0x27] @ [CHR 0x0A])"
  by (simp add: lexer_defs parser_defs parser_fuel interp_defs interp_fuel driver_defs
        less_equal_chain_program_text char_of_def bit_Suc_0_iff Let_def
      split del: if_split cong: eval_congs)

subsection \<open>A call as a statement of a block\<close>

text \<open>
  Claim C6 says that \<^verbatim>\<open>f(1);\<close> inside a block is parsed as a call statement of \<^verbatim>\<open>f\<close>.
  \<^verbatim>\<open>parseStatement\<close> does that, at top level. The loop of \<^verbatim>\<open>parseBlock\<close> has no case for
  the parenthesis: after the identifier it only looks for \<^verbatim>\<open>=\<close> and otherwise parses an
  expression, here the parenthesised \<^verbatim>\<open>(7)\<close>. The statement of the block is an
  \<^verbatim>\<open>ExpressionStmt\<close> of the number 7, the name \<^verbatim>\<open>f\<close> is dropped, and running the program
  never looks for a function \<^verbatim>\<open>f\<close>; the same statement at top level is a \<^verbatim>\<open>CallExpr\<close>,
  and running it fails because there is no function \<^verbatim>\<open>f\<close>.
\<close>

theorem block_call_statement_is_not_a_call:
  "andThen (Parser_new (Lexer_new block_call_program)) (parseTopLevel 12) =
     Ok (FunctionDecl 1 10 ''main'' [] ''void'' [ExpressionStmt 1 19 (NumberLiteral 1 21 7)],
         \<lparr>lexer = \<lparr>source = block_call_program, current = 25, start = 25, line = 1,
                    column = 26, line_start = 1, column_start = 26\<rparr>,
          currentToken = \<lparr>type = T_End, lexeme = [], line = 1, column = 26\<rparr>\<rparr>)
   \<and> main 12 block_call_program = (Ok 0, ''main() returned: 0'' @ [CHR 0x0A], [])
   \<and> main 12 ''f(7);'' = (Ok 1, [], ''Error: Function not found: f'' @ [CHR 0x0A])"
  by (simp add: lexer_defs parser_defs parser_fuel interp_defs interp_fuel driver_defs
        block_call_program_text char_of_def bit_Suc_0_iff Let_def
      split del: if_split cong: eval_congs)

section \<open>Whole programs\<close>

text \<open>The program of the specification, as claim C4 writes it, on one line.\<close>

definition canonical_program :: string where
  "canonical_program =
    ''function main(): int { for (let i: int = 0; i < 10; i++) { print(i); } return 0; }''"

lemma canonical_program_length: "length canonical_program = 82"
  by (simp add: canonical_program_def)

lemmas canonical_program_text = canonical_program_length
  arg_cong2 [where f = nth, OF canonical_program_def refl]
  arg_cong [where f = "drop k" for k, OF canonical_program_def]
  arg_cong [where f = "take k" for k, OF canonical_program_def]


text \<open>A function with a \<^verbatim>\<open>return\<close> inside a loop, before the \<^verbatim>\<open>return\<close> that ends its body.\<close>

definition nested_return_program :: string where
  "nested_return_program =
    ''function main() { for (i = 0; i < 1; i++) { return 5; } return 7; }''"

lemma nested_return_program_length: "length nested_return_program = 67"
  by (simp add: nested_return_program_def)

lemmas nested_return_program_text = nested_return_program_length
  arg_cong2 [where f = nth, OF nested_return_program_def refl]
  arg_cong [where f = "drop k" for k, OF nested_return_program_def]
  arg_cong [where f = "take k" for k, OF nested_return_program_def]


text \<open>
  Claim C4: the driver, run on the canonical program, writes the integers 0 to 9, one per
  line and in this order, then the line that reports the value 0 of \<^verbatim>\<open>main\<close>; it writes
  nothing to \<^verbatim>\<open>std::cerr\<close> and its exit status is 0.
\<close>

theorem main_canonical_program:
  "main 40 canonical_program =
    (Ok 0,
     ''0'' @ [CHR 0x0A] @ ''1'' @ [CHR 0x0A] @ ''2'' @ [CHR 0x0A] @ ''3'' @ [CHR 0x0A]
       @ ''4'' @ [CHR 0x0A] @ ''5'' @ [CHR 0x0A] @ ''6'' @ [CHR 0x0A] @ ''7'' @ [CHR 0x0A]
       @ ''8'' @ [CHR 0x0A] @ ''9'' @ [CHR 0x0A] @ ''main() returned: 0'' @ [CHR 0x0A],
     [])"
  by (simp add: lexer_defs parser_defs parser_fuel interp_defs interp_fuel driver_defs
        canonical_program_text char_of_def bit_Suc_0_iff Let_def
      split del: if_split cong: eval_congs)

text \<open>
  The loop of \<^verbatim>\<open>execFunction\<close> stops at a \<^verbatim>\<open>return\<close> that is a statement of the body
  itself, and a body without one gives 0. A \<^verbatim>\<open>return\<close> that \<^verbatim>\<open>execStatement\<close> runs, inside
  the body of a loop, evaluates its expression and nothing else.
\<close>

lemma execBody_ReturnStmt: "execBody (Suc n) (ReturnStmt l c e # rest) S = evalExpr n e S"
  by simp

lemma execBody_Nil: "execBody (Suc n) [] S = (Ok 0, S)"
  by simp

lemma execStatement_ReturnStmt:
  "execStatement (Suc n) (ReturnStmt l c e) S = thenI (evalExpr n e S) (\<lambda>v S1. (Ok (), S1))"
  by simp

text \<open>
  Claim C1 says that a call stops at the first \<^verbatim>\<open>return\<close> it meets and that the value
  of that \<^verbatim>\<open>return\<close> is the result of the call. In the program below the first
  \<^verbatim>\<open>return\<close> met is \<^verbatim>\<open>return 5\<close>, in the body of the \<^verbatim>\<open>for\<close> loop. The call does not
  stop there: the loop ends normally, the statements after it run, and \<^verbatim>\<open>main\<close> returns 7.
\<close>

theorem main_nested_return_program:
  "main 40 nested_return_program = (Ok 0, ''main() returned: 7'' @ [CHR 0x0A], [])"
  by (simp add: lexer_defs parser_defs parser_fuel interp_defs interp_fuel driver_defs
        nested_return_program_text char_of_def bit_Suc_0_iff Let_def
      split del: if_split cong: eval_congs)

end
